theory Spec2Isabelle
  imports Complex_Main "HOL-Library.Multiset"
begin

section \<open>Python values\<close>

text \<open>
  The exporter of \<^verbatim>\<open>segmentation_csv_exporter.py\<close> consumes task records that were
  parsed from JSON.  A value is one of Python's \<^verbatim>\<open>None\<close>, \<^verbatim>\<open>bool\<close>, \<^verbatim>\<open>int\<close>,
  \<^verbatim>\<open>float\<close>, \<^verbatim>\<open>str\<close>, \<^verbatim>\<open>list\<close> or \<^verbatim>\<open>dict\<close> (insertion ordered, keys are strings).
  Python's unbounded integers are \<^typ>\<open>int\<close>.  A float is represented by a real number:
  rounding, infinities and NaN are not modelled, and no theorem below depends on the numeric
  value of a float.  An exception is a value of type \<open>error\<close>; a computation that may raise
  returns \<open>error + 'a\<close> with \<open>Inl\<close> for the exception.
\<close>

datatype error = TypeError | ValueError | AttributeError | IndexError

datatype json =
    JNone
  | JBool bool
  | JInt int
  | JFloat real
  | JStr string
  | JList "json list"
  | JDict "(string \<times> json) list"

text \<open>Python's numbers as the decoder's arithmetic sees them: \<^verbatim>\<open>bool\<close> is a subclass of
  \<^verbatim>\<open>int\<close>; every other kind of value makes \<^verbatim>\<open>count <= 0\<close> raise \<^verbatim>\<open>TypeError\<close>.\<close>

datatype pynum = PInt int | PFloat real

fun num_of :: "json \<Rightarrow> pynum option" where
  "num_of (JInt i) = Some (PInt i)"
| "num_of (JBool b) = Some (PInt (if b then 1 else 0))"
| "num_of (JFloat r) = Some (PFloat r)"
| "num_of _ = None"

fun num_real :: "pynum \<Rightarrow> real" where
  "num_real (PInt i) = real_of_int i"
| "num_real (PFloat r) = r"

definition num_le :: "pynum \<Rightarrow> pynum \<Rightarrow> bool" where
  "num_le a b = (num_real a \<le> num_real b)"

fun num_add :: "pynum \<Rightarrow> pynum \<Rightarrow> pynum" where
  "num_add (PInt a) (PInt b) = PInt (a + b)"
| "num_add a b = PFloat (num_real a + num_real b)"

text \<open>\<^verbatim>\<open>min(a, b)\<close> returns its first argument unless the second is strictly smaller.\<close>

definition py_min :: "pynum \<Rightarrow> pynum \<Rightarrow> pynum" where
  "py_min a b = (if num_real b < num_real a then b else a)"

section \<open>Mask decoder\<close>

text \<open>
  \<^verbatim>\<open>flat[i:j] = v\<close> on a one-dimensional array: a negative bound counts from the end, both
  bounds are clipped to the array, and the positions \<open>i \<le> p < j\<close> are overwritten.  A bound
  that is a float raises \<^verbatim>\<open>TypeError\<close>.
\<close>

definition slice_bound :: "nat \<Rightarrow> int \<Rightarrow> nat" where
  "slice_bound n k = (if k < 0 then nat (max 0 (k + int n)) else min (nat k) n)"

definition slice_fill :: "nat list \<Rightarrow> int \<Rightarrow> int \<Rightarrow> nat \<Rightarrow> nat list" where
  "slice_fill flat i j v =
     (let a = slice_bound (length flat) i; b = slice_bound (length flat) j
      in map (\<lambda>p. if a \<le> p \<and> p < b then v else flat ! p) [0..<length flat])"

fun np_slice_fill :: "nat list \<Rightarrow> pynum \<Rightarrow> pynum \<Rightarrow> nat \<Rightarrow> error + nat list" where
  "np_slice_fill flat (PInt i) (PInt j) v = Inr (slice_fill flat i j v)"
| "np_slice_fill flat _ _ v = Inl TypeError"

text \<open>
  The loop of \<^verbatim>\<open>_decode_brush_rle_to_mask\<close> (lines 64--74), one equation per iteration.
  The state is the buffer \<open>flat\<close>, the current \<open>val\<close> (0 or 1) and the position \<open>idx\<close>;
  \<^verbatim>\<open>continue\<close> and falling through recurse on the rest of the list, \<^verbatim>\<open>break\<close> returns.
\<close>

fun rle_loop :: "int \<Rightarrow> json list \<Rightarrow> nat list \<Rightarrow> int \<Rightarrow> pynum \<Rightarrow> error + nat list" where
  "rle_loop tot [] flat val idx = Inr flat"
| "rle_loop tot (cnt # rest) flat val idx =
     (case num_of cnt of
        None \<Rightarrow> Inl TypeError
      | Some c \<Rightarrow>
          if num_le c (PInt 0) then rle_loop tot rest flat (1 - val) idx
          else
            (case (if val = 1 then np_slice_fill flat idx (py_min (num_add idx c) (PInt tot)) 1
                   else Inr flat) of
               Inl e \<Rightarrow> Inl e
             | Inr flat' \<Rightarrow>
                 if num_le (PInt tot) (py_min (num_add idx c) (PInt tot)) then Inr flat'
                 else rle_loop tot rest flat' (1 - val) (py_min (num_add idx c) (PInt tot))))"

text \<open>
  \<^verbatim>\<open>flat.reshape((height, width))\<close>: a negative dimension stands for an unknown one, which
  numpy cannot infer here (both unknown, or the other one zero), and a shape whose product is
  not the size of the buffer is refused; both raise \<^verbatim>\<open>ValueError\<close>.
\<close>

definition np_reshape :: "'a list \<Rightarrow> int \<Rightarrow> int \<Rightarrow> error + 'a list list" where
  "np_reshape flat height width =
     (if height < 0 \<or> width < 0 \<or> height * width \<noteq> int (length flat) then Inl ValueError
      else Inr (map (\<lambda>r. take (nat width) (drop (r * nat width) flat)) [0..<nat height]))"

text \<open>
  \<^verbatim>\<open>_decode_brush_rle_to_mask\<close> (lines 54--78).  \<^verbatim>\<open>np.zeros(total)\<close> raises \<^verbatim>\<open>ValueError\<close>
  for a negative size.  The mask is a list of rows of booleans.
\<close>

definition decode_brush_rle_to_mask :: "json list \<Rightarrow> int \<Rightarrow> int \<Rightarrow> error + bool list list" where
  "decode_brush_rle_to_mask rle width height =
     (let tot = width * height in
      if tot < 0 then Inl ValueError
      else
        (case rle_loop tot rle (replicate (nat tot) 0) 0 (PInt 0) of
           Inl e \<Rightarrow> Inl e
         | Inr flat \<Rightarrow>
             (case np_reshape flat height width of
                Inl e \<Rightarrow> Inl e
              | Inr grid \<Rightarrow> Inr (map (map (\<lambda>x. 0 < x)) grid))))"

section \<open>Exceptions and iteration\<close>

definition err_bind :: "error + 'a \<Rightarrow> ('a \<Rightarrow> error + 'b) \<Rightarrow> error + 'b" where
  "err_bind m f = (case m of Inl e \<Rightarrow> Inl e | Inr x \<Rightarrow> f x)"

text \<open>Iterating a value (\<^verbatim>\<open>for x in v\<close>, \<^verbatim>\<open>list(v)\<close>): a list gives its elements, a string
  its characters as one-character strings, a dict its keys; anything else is not iterable.\<close>

fun py_iter :: "json \<Rightarrow> error + json list" where
  "py_iter (JList xs) = Inr xs"
| "py_iter (JStr s) = Inr (map (\<lambda>c. JStr [c]) s)"
| "py_iter (JDict d) = Inr (map (\<lambda>kv. JStr (fst kv)) d)"
| "py_iter _ = Inl TypeError"

section \<open>Region geometry analyzer\<close>

text \<open>\<^verbatim>\<open>np.where(mask)\<close> on a two-dimensional mask: the (row, column) pairs of the true
  pixels in row-major order; \<^verbatim>\<open>ys\<close> are the first components and \<^verbatim>\<open>xs\<close> the second.\<close>

definition np_where :: "bool list list \<Rightarrow> (nat \<times> nat) list" where
  "np_where msk =
     concat (map (\<lambda>r. map (\<lambda>c. (r, c)) (filter (\<lambda>c. msk ! r ! c) [0..<length (msk ! r)]))
                 [0..<length msk])"

text \<open>\<^verbatim>\<open>a.min()\<close> and \<^verbatim>\<open>a.max()\<close> raise \<^verbatim>\<open>ValueError\<close> on an empty array.\<close>

fun np_min :: "nat list \<Rightarrow> error + nat" where
  "np_min [] = Inl ValueError"
| "np_min (x # xs) = Inr (fold min xs x)"

fun np_max :: "nat list \<Rightarrow> error + nat" where
  "np_max [] = Inl ValueError"
| "np_max (x # xs) = Inr (fold max xs x)"

text \<open>\<^verbatim>\<open>mask.sum()\<close>: the number of true pixels.\<close>

definition mask_sum :: "bool list list \<Rightarrow> nat" where
  "mask_sum msk = sum_list (map (\<lambda>row. length (filter (\<lambda>b. b) row)) msk)"

text \<open>\<^verbatim>\<open>_compute_bbox_and_area\<close> (lines 100--112).\<close>

definition compute_bbox_and_area :: "bool list list \<Rightarrow> error + (int \<times> int \<times> int \<times> int \<times> int)" where
  "compute_bbox_and_area msk =
     (let ys = map fst (np_where msk); xs = map snd (np_where msk) in
      if length xs = 0 \<or> length ys = 0 then Inr (0, 0, 0, 0, 0)
      else
        err_bind (np_min xs) (\<lambda>x_min.
        err_bind (np_min ys) (\<lambda>y_min.
        err_bind (np_max xs) (\<lambda>x_max.
        err_bind (np_max ys) (\<lambda>y_max.
          Inr (int x_min, int y_min,
               max 0 (int x_max - int x_min), max 0 (int y_max - int y_min),
               int (mask_sum msk)))))))"

section \<open>Polygon rasterizer\<close>

text \<open>\<^verbatim>\<open>x_perc, y_perc = p\<close>: the value is iterated and must give exactly two items.\<close>

definition unpack2 :: "json \<Rightarrow> error + (json \<times> json)" where
  "unpack2 p =
     err_bind (py_iter p) (\<lambda>items.
       case items of [a, b] \<Rightarrow> Inr (a, b) | _ \<Rightarrow> Inl ValueError)"

text \<open>\<^verbatim>\<open>(x_perc / 100.0) * float(size)\<close>: only a number can be divided by a float.\<close>

definition percent_to_px :: "json \<Rightarrow> int \<Rightarrow> error + real" where
  "percent_to_px perc sz =
     (case num_of perc of
        None \<Rightarrow> Inl TypeError
      | Some n \<Rightarrow> Inr ((num_real n / 100) * real_of_int sz))"

fun points_loop :: "json list \<Rightarrow> int \<Rightarrow> int \<Rightarrow> error + (real \<times> real) list" where
  "points_loop [] width height = Inr []"
| "points_loop (p # rest) width height =
     (case unpack2 p of
        Inl e \<Rightarrow> Inl e
      | Inr (x_perc, y_perc) \<Rightarrow>
          (case percent_to_px x_perc width of
             Inl e \<Rightarrow> Inl e
           | Inr x \<Rightarrow>
               (case percent_to_px y_perc height of
                  Inl e \<Rightarrow> Inl e
                | Inr y \<Rightarrow>
                    (case points_loop rest width height of
                       Inl e \<Rightarrow> Inl e
                     | Inr px_points \<Rightarrow> Inr ((x, y) # px_points)))))"

text \<open>\<^verbatim>\<open>_polygon_points_percent_to_px\<close> (lines 81--87); \<open>points\<close> is whatever the result's
  value holds under \<^verbatim>\<open>"points"\<close>.\<close>

definition polygon_points_percent_to_px :: "json \<Rightarrow> int \<Rightarrow> int \<Rightarrow> error + (real \<times> real) list" where
  "polygon_points_percent_to_px points width height =
     err_bind (py_iter points) (\<lambda>ps. points_loop ps width height)"

text \<open>\<^verbatim>\<open>np.zeros((height, width), dtype=bool)\<close>.\<close>

definition np_zeros2 :: "int \<Rightarrow> int \<Rightarrow> error + bool list list" where
  "np_zeros2 height width =
     (if height < 0 \<or> width < 0 then Inl ValueError
      else Inr (replicate (nat height) (replicate (nat width) False)))"

text \<open>\<^verbatim>\<open>int(round(x))\<close> on a float: to the nearest integer, a tie to the even one.\<close>

definition py_round :: "real \<Rightarrow> int" where
  "py_round x =
     (let f = \<lfloor>x\<rfloor> in
      if x - of_int f < 1 / 2 then f
      else if 1 / 2 < x - of_int f then f + 1
      else if even f then f else f + 1)"

text \<open>
  \<^verbatim>\<open>_rasterize_polygon\<close> (lines 90--97).  The scan-fill itself is the imaging library's
  (\<^verbatim>\<open>Image.new\<close>, \<^verbatim>\<open>ImageDraw.polygon\<close> with outline and fill, \<^verbatim>\<open>np.array(img) > 0\<close>); it
  is the parameter \<open>draw\<close>, from the rounded vertices and the size to a mask.
\<close>

definition rasterize_polygon ::
  "((int \<times> int) list \<Rightarrow> int \<Rightarrow> int \<Rightarrow> error + bool list list) \<Rightarrow>
   (real \<times> real) list \<Rightarrow> int \<Rightarrow> int \<Rightarrow> error + bool list list" where
  "rasterize_polygon draw points_px width height =
     (if points_px = [] then np_zeros2 height width
      else draw (map (\<lambda>xy. (py_round (fst xy), py_round (snd xy))) points_px) width height)"

section \<open>Intensity aggregator\<close>

text \<open>
  A decoded image, as far as the exporter looks at it: its mode and size, the array of
  \<^verbatim>\<open>image.convert("L")\<close> and the three arrays of \<^verbatim>\<open>image.convert("RGB").split()\<close>.  The
  conversions are the imaging library's; they may fail on pixel data that cannot be read.
\<close>

record pil_image =
  img_mode :: string
  img_width :: int
  img_height :: int
  img_gray :: "error + real list list"
  img_rgb :: "error + (real list list \<times> real list list \<times> real list list)"

type_synonym intensities = "real option \<times> real option \<times> real option \<times> real option"

definition mask_any :: "bool list list \<Rightarrow> bool" where
  "mask_any msk = list_ex (list_ex (\<lambda>b. b)) msk"

text \<open>\<^verbatim>\<open>arr[mask_bool]\<close>: the shapes must agree, else \<^verbatim>\<open>IndexError\<close>; the selected values come
  in row-major order.\<close>

definition np_masked :: "real list list \<Rightarrow> bool list list \<Rightarrow> error + real list" where
  "np_masked arr msk =
     (if map length arr = map length msk
      then Inr (map fst (filter snd (zip (concat arr) (concat msk))))
      else Inl IndexError)"

definition np_mean :: "real list \<Rightarrow> real" where
  "np_mean xs = sum_list xs / real (length xs)"

text \<open>\<^verbatim>\<open>float(arr[mask_bool].mean()) if mask_bool.any() else None\<close>.\<close>

definition masked_mean :: "real list list \<Rightarrow> bool list list \<Rightarrow> error + real option" where
  "masked_mean arr msk =
     (if mask_any msk then err_bind (np_masked arr msk) (\<lambda>sel. Inr (Some (np_mean sel)))
      else Inr None)"

text \<open>\<^verbatim>\<open>_compute_intensities\<close> (lines 115--134).\<close>

definition compute_intensities :: "pil_image \<Rightarrow> bool list list \<Rightarrow> error + intensities" where
  "compute_intensities img msk =
     (if mask_sum msk = 0 then Inr (None, None, None, None)
      else
        err_bind (img_gray img) (\<lambda>gray_np.
        err_bind (masked_mean gray_np msk) (\<lambda>m_gray.
          if img_mode img \<in> set [''L'', ''I'', ''I;16'', ''F'']
          then Inr (m_gray, None, None, None)
          else
            err_bind (img_rgb img) (\<lambda>(r_np, g_np, b_np).
            err_bind (masked_mean r_np msk) (\<lambda>m_r.
            err_bind (masked_mean g_np msk) (\<lambda>m_g.
            err_bind (masked_mean b_np msk) (\<lambda>m_b.
              Inr (m_gray, m_r, m_g, m_b))))))))"

section \<open>Export pipeline\<close>

subsection \<open>Python operations on values\<close>

fun py_truthy :: "json \<Rightarrow> bool" where
  "py_truthy JNone = False"
| "py_truthy (JBool b) = b"
| "py_truthy (JInt i) = (i \<noteq> 0)"
| "py_truthy (JFloat r) = (r \<noteq> 0)"
| "py_truthy (JStr s) = (s \<noteq> [])"
| "py_truthy (JList xs) = (xs \<noteq> [])"
| "py_truthy (JDict d) = (d \<noteq> [])"

text \<open>\<^verbatim>\<open>a or b\<close>.\<close>

definition py_or :: "json \<Rightarrow> json \<Rightarrow> json" where
  "py_or a b = (if py_truthy a then a else b)"

text \<open>\<^verbatim>\<open>d.get(k)\<close>: \<^verbatim>\<open>None\<close> for a missing key; only a dict has the method.\<close>

fun dict_get :: "json \<Rightarrow> string \<Rightarrow> error + json" where
  "dict_get (JDict d) k = Inr (case map_of d k of None \<Rightarrow> JNone | Some v \<Rightarrow> v)"
| "dict_get _ k = Inl AttributeError"

fun is_list :: "json \<Rightarrow> bool" where
  "is_list (JList xs) = True"
| "is_list _ = False"

text \<open>\<^verbatim>\<open>sep.join(parts)\<close>.\<close>

fun py_join :: "string \<Rightarrow> string list \<Rightarrow> string" where
  "py_join sep [] = []"
| "py_join sep [x] = x"
| "py_join sep (x # y # ys) = x @ sep @ py_join sep (y # ys)"

subsection \<open>Collaborators\<close>

text \<open>
  What the exporter calls and this file does not define: Python's \<^verbatim>\<open>str()\<close>,
  \<^verbatim>\<open>str.lower\<close>, \<^verbatim>\<open>str.strip\<close>, \<^verbatim>\<open>float()\<close> of a string (\<open>None\<close> when it raises),
  \<^verbatim>\<open>int()\<close>, and \<^verbatim>\<open>id()\<close> of the result object at a position of an annotation's result
  list, already printed; the lookup of the image field in the project's parsed label
  configuration (\<^verbatim>\<open>_get_object_value_key_for_result\<close>); the image source resolver and opener
  (\<^verbatim>\<open>_resolve_image_source\<close>, \<^verbatim>\<open>_open_image\<close>, which catch their own failures and return);
  the scan-fill; and the \<^verbatim>\<open>download_resources\<close> flag of the call.  Every theorem holds for
  all of them.
\<close>

record image_source =
  src_url :: string
  src_path :: "string option"
  src_filename :: string

record env =
  py_str :: "json \<Rightarrow> string"
  py_lower :: "string \<Rightarrow> string"
  py_strip :: "string \<Rightarrow> string"
  py_float :: "string \<Rightarrow> real option"
  py_int :: "json \<Rightarrow> error + int"
  object_id :: "nat \<Rightarrow> string"
  object_value_key :: "json \<Rightarrow> error + json"
  resolve_image_source :: "string \<Rightarrow> image_source"
  open_image :: "image_source \<Rightarrow> pil_image option"
  draw_polygon :: "(int \<times> int) list \<Rightarrow> int \<Rightarrow> int \<Rightarrow> error + bool list list"
  download_resources :: bool

subsection \<open>Output rows\<close>

text \<open>
  One row of a per-image table, with the columns of \<^verbatim>\<open>CSV_COLUMNS\<close>.  An intensity that the
  code writes as the empty string (absent) is \<open>None\<close>; \<open>polygon_points_px\<close> is the list
  that is serialised, empty for the empty string.
\<close>

record row =
  image_filename :: string
  task_id :: json
  annotation_id :: json
  region_id :: json
  label :: string
  shape_type :: string
  bbox_x_px :: int
  bbox_y_px :: int
  x_length_px :: int
  y_length_px :: int
  area_px :: int
  mean_gray :: "real option"
  mean_r :: "real option"
  mean_g :: "real option"
  mean_b :: "real option"
  polygon_points_px :: "(real \<times> real) list"

text \<open>\<^verbatim>\<open>rows_by_image[key].append(row)\<close> on a \<^verbatim>\<open>defaultdict(list)\<close>: keys stay in the order
  of their first row.\<close>

fun append_row :: "string \<Rightarrow> row \<Rightarrow> (string \<times> row list) list \<Rightarrow> (string \<times> row list) list" where
  "append_row k r [] = [(k, [r])]"
| "append_row k r ((k', rs) # rest) =
     (if k = k' then (k', rs @ [r]) # rest else (k', rs) # append_row k r rest)"

subsection \<open>Labels and the pre-scan of an annotation\<close>

text \<open>\<^verbatim>\<open>_first_label_from_result_value\<close> (lines 262--266).\<close>

definition first_label_from_result_value :: "env \<Rightarrow> json \<Rightarrow> string \<Rightarrow> error + string" where
  "first_label_from_result_value E val k =
     err_bind (dict_get val k) (\<lambda>l.
       case py_or l (JList []) of
         JList xs \<Rightarrow> Inr (py_join '';'' (map (py_str E) xs))
       | other \<Rightarrow> Inr (py_str E other))"

text \<open>Lines 301--305: the label \<^verbatim>\<open>lb\<close> of a result, \<open>None\<close> when it has neither kind.\<close>

definition prescan_label :: "env \<Rightarrow> json \<Rightarrow> error + string option" where
  "prescan_label E val =
     err_bind (dict_get val ''brushlabels'') (\<lambda>b.
       if py_truthy b
       then err_bind (first_label_from_result_value E val ''brushlabels'') (\<lambda>l. Inr (Some l))
       else
         err_bind (dict_get val ''polygonlabels'') (\<lambda>p.
           if py_truthy p
           then err_bind (first_label_from_result_value E val ''polygonlabels'') (\<lambda>l. Inr (Some l))
           else Inr None))"

text \<open>Lines 309--315: the number a textarea result gives, \<open>None\<close> when it is not a
  textarea, has no text, or its first text does not parse (the exception is swallowed).\<close>

definition prescan_textarea :: "env \<Rightarrow> json \<Rightarrow> json \<Rightarrow> error + real option" where
  "prescan_textarea E res val =
     err_bind (dict_get res ''type'') (\<lambda>t.
       if t = JStr ''textarea''
       then
         err_bind (dict_get val ''text'') (\<lambda>tx.
           case py_or tx (JList []) of
             JList (t0 # ts) \<Rightarrow> Inr (py_float E (py_strip E (py_str E t0)))
           | _ \<Rightarrow> Inr None)
       else Inr None)"

text \<open>One iteration of the pre-scan (lines 296--315) on the two dictionaries
  \<^verbatim>\<open>label_by_region\<close> and \<^verbatim>\<open>textarea_by_region\<close>.\<close>

definition prescan_step ::
  "env \<Rightarrow> (string \<rightharpoonup> string) \<times> (string \<rightharpoonup> real) \<Rightarrow> json \<Rightarrow>
   error + ((string \<rightharpoonup> string) \<times> (string \<rightharpoonup> real))" where
  "prescan_step E st res =
     err_bind (dict_get res ''value'') (\<lambda>v.
     err_bind (dict_get res ''id'') (\<lambda>rid.
       if rid = JNone then Inr st
       else
         err_bind (prescan_label E (py_or v (JDict []))) (\<lambda>lb.
         err_bind (prescan_textarea E res (py_or v (JDict []))) (\<lambda>tx.
           Inr ((case lb of
                   None \<Rightarrow> fst st
                 | Some l \<Rightarrow> if l = [] then fst st else (fst st)(py_str E rid \<mapsto> l)),
                (case tx of
                   None \<Rightarrow> snd st
                 | Some x \<Rightarrow> (snd st)(py_str E rid \<mapsto> x)))))))"

fun prescan ::
  "env \<Rightarrow> json list \<Rightarrow> (string \<rightharpoonup> string) \<times> (string \<rightharpoonup> real) \<Rightarrow>
   error + ((string \<rightharpoonup> string) \<times> (string \<rightharpoonup> real))" where
  "prescan E [] st = Inr st"
| "prescan E (res # rest) st =
     (case prescan_step E st res of
        Inl e \<Rightarrow> Inl e
      | Inr st' \<Rightarrow> prescan E rest st')"

subsection \<open>The stages of one region\<close>

text \<open>Line 319: \<^verbatim>\<open>(res.get("type") or "").lower()\<close>; only a string has \<^verbatim>\<open>lower\<close>.\<close>

definition result_rtype :: "env \<Rightarrow> json \<Rightarrow> error + string" where
  "result_rtype E res =
     err_bind (dict_get res ''type'') (\<lambda>t.
       case py_or t (JStr []) of
         JStr s \<Rightarrow> Inr (py_lower E s)
       | _ \<Rightarrow> Inl AttributeError)"

text \<open>Line 320: \<^verbatim>\<open>res.get("value") or {}\<close>.\<close>

definition result_value :: "json \<Rightarrow> error + json" where
  "result_value res = err_bind (dict_get res ''value'') (\<lambda>v. Inr (py_or v (JDict [])))"

text \<open>\<^verbatim>\<open>next(iter(data.keys()), None)\<close> and \<^verbatim>\<open>next(iter(data.values()), None)\<close>.\<close>

fun data_first_key :: "json \<Rightarrow> error + json" where
  "data_first_key (JDict []) = Inr JNone"
| "data_first_key (JDict (kv # rest)) = Inr (JStr (fst kv))"
| "data_first_key _ = Inl AttributeError"

fun data_first_value :: "json \<Rightarrow> error + json" where
  "data_first_value (JDict []) = Inr JNone"
| "data_first_value (JDict (kv # rest)) = Inr (snd kv)"
| "data_first_value _ = Inl AttributeError"

text \<open>Lines 323--324: the key of the task's data that holds the image.\<close>

definition result_data_key :: "env \<Rightarrow> json \<Rightarrow> json \<Rightarrow> error + json" where
  "result_data_key E data res =
     err_bind (dict_get res ''to_name'') (\<lambda>tn.
     err_bind (object_value_key E (py_or tn (JStr []))) (\<lambda>k.
       if py_truthy k then Inr k else data_first_key data))"

text \<open>
  Line 325: \<^verbatim>\<open>data.get(data_key) if data_key in data else next(iter(data.values()), None)\<close>.
  The keys of \<open>data\<close> are strings, so only a string can be among them; a list or a dict
  cannot be hashed.  When \<open>data\<close> is not a dict the membership test raises \<^verbatim>\<open>TypeError\<close>,
  or else (a list, or a string asked for a string) the access that follows raises
  \<^verbatim>\<open>AttributeError\<close>.
\<close>

fun image_url_of :: "json \<Rightarrow> json \<Rightarrow> error + json" where
  "image_url_of (JStr k) (JDict d) =
     (if k \<in> set (map fst d) then dict_get (JDict d) k else data_first_value (JDict d))"
| "image_url_of (JList xs) (JDict d) = Inl TypeError"
| "image_url_of (JDict ys) (JDict d) = Inl TypeError"
| "image_url_of k (JDict d) = data_first_value (JDict d)"
| "image_url_of k (JList xs) = Inl AttributeError"
| "image_url_of (JStr k) (JStr s) = Inl AttributeError"
| "image_url_of k other = Inl TypeError"

definition result_image_url :: "env \<Rightarrow> json \<Rightarrow> json \<Rightarrow> error + json" where
  "result_image_url E data res =
     err_bind (result_data_key E data res) (\<lambda>k. image_url_of k data)"

text \<open>Lines 332--345: the size recorded with the result, else (when downloads are
  allowed) the size of the opened image.\<close>

definition result_size :: "env \<Rightarrow> json \<Rightarrow> json \<Rightarrow> image_source \<Rightarrow> error + (int \<times> int)" where
  "result_size E res val source =
     err_bind (dict_get res ''original_width'') (\<lambda>rw.
     err_bind (if py_truthy rw then Inr rw else dict_get val ''original_width'') (\<lambda>ow.
     err_bind (dict_get res ''original_height'') (\<lambda>rh.
     err_bind (if py_truthy rh then Inr rh else dict_get val ''original_height'') (\<lambda>oh.
     err_bind (if py_truthy ow then py_int E ow else Inr 0) (\<lambda>w0.
     err_bind (if py_truthy oh then py_int E oh else Inr 0) (\<lambda>h0.
       if (w0 = 0 \<or> h0 = 0) \<and> download_resources E
       then (case open_image E source of
               None \<Rightarrow> Inr (w0, h0)
             | Some probe \<Rightarrow> Inr (img_width probe, img_height probe))
       else Inr (w0, h0)))))))"

text \<open>Lines 351--352.\<close>

definition result_is_mask :: "string \<Rightarrow> json \<Rightarrow> error + bool" where
  "result_is_mask rtype val =
     (if rtype = ''brushlabels'' then Inr True
      else
        err_bind (dict_get val ''format'') (\<lambda>f.
          if f = JStr ''rle'' then err_bind (dict_get val ''rle'') (\<lambda>r. Inr (is_list r))
          else Inr False))"

definition result_is_polygon :: "string \<Rightarrow> json \<Rightarrow> error + bool" where
  "result_is_polygon rtype val =
     (if rtype = ''polygonlabels'' then Inr True
      else err_bind (dict_get val ''points'') (\<lambda>p. Inr (is_list p \<and> py_truthy p)))"

text \<open>Lines 354--357: the region id, synthesised for a result without one.\<close>

definition result_region_id :: "env \<Rightarrow> nat \<Rightarrow> string \<Rightarrow> json \<Rightarrow> error + json" where
  "result_region_id E i rtype res =
     err_bind (dict_get res ''id'') (\<lambda>r.
       Inr (if r = JNone then JStr (rtype @ ''-'' @ object_id E i) else r))"

text \<open>Lines 363--368: the decoding of a mask region; an exception of \<^verbatim>\<open>list(rle)\<close> or of
  the decoder is caught and the region is skipped (\<open>None\<close>).\<close>

definition decode_region :: "json \<Rightarrow> int \<Rightarrow> int \<Rightarrow> error + bool list list option" where
  "decode_region val w h =
     err_bind (dict_get val ''rle'') (\<lambda>r.
       case err_bind (py_iter (py_or r (JList []))) (\<lambda>rle. decode_brush_rle_to_mask rle w h) of
         Inl e \<Rightarrow> Inr None
       | Inr msk \<Rightarrow> Inr (Some msk))"

text \<open>Lines 370 and 377: the region's own label, else the one recorded for its id.\<close>

definition region_label ::
  "env \<Rightarrow> (string \<rightharpoonup> string) \<Rightarrow> json \<Rightarrow> string \<Rightarrow> string \<Rightarrow> error + string" where
  "region_label E lbr val k rid_str =
     err_bind (first_label_from_result_value E val k) (\<lambda>l.
       Inr (if l = [] then (case lbr rid_str of None \<Rightarrow> [] | Some x \<Rightarrow> x) else l))"

text \<open>Lines 362--379: mask, shape type, label and pixel vertices of a region; \<open>None\<close>
  when the region is skipped.\<close>

definition region_shape ::
  "env \<Rightarrow> (string \<rightharpoonup> string) \<Rightarrow> json \<Rightarrow> int \<Rightarrow> int \<Rightarrow> string \<Rightarrow> bool \<Rightarrow> bool \<Rightarrow>
   error + (bool list list \<times> string \<times> string \<times> (real \<times> real) list) option" where
  "region_shape E lbr val w h rid_str is_mask is_polygon =
     (if is_mask then
        err_bind (decode_region val w h) (\<lambda>m.
          case m of
            None \<Rightarrow> Inr None
          | Some msk \<Rightarrow>
              err_bind (region_label E lbr val ''brushlabels'' rid_str) (\<lambda>lab.
                Inr (Some (msk, ''mask'', lab, []))))
      else if is_polygon then
        err_bind (dict_get val ''points'') (\<lambda>p.
        err_bind (polygon_points_percent_to_px (py_or p (JList [])) w h) (\<lambda>pts.
        err_bind (rasterize_polygon (draw_polygon E) pts w h) (\<lambda>msk.
        err_bind (region_label E lbr val ''polygonlabels'' rid_str) (\<lambda>lab.
          Inr (Some (msk, ''polygon'', lab, pts))))))
      else Inr None)"

text \<open>Lines 388--394: the intensities from the pixels of the opened image; absent when
  the image cannot be opened or the aggregator raises.\<close>

definition intensity_from_pixels :: "env \<Rightarrow> image_source \<Rightarrow> bool list list \<Rightarrow> intensities" where
  "intensity_from_pixels E source msk =
     (case open_image E source of
        None \<Rightarrow> (None, None, None, None)
      | Some pil_img \<Rightarrow>
          (case compute_intensities pil_img msk of
             Inl e \<Rightarrow> (None, None, None, None)
           | Inr t \<Rightarrow> t))"

text \<open>Lines 383--394: the textual override of the region id wins over the pixels.\<close>

definition region_intensity ::
  "env \<Rightarrow> (string \<rightharpoonup> real) \<Rightarrow> image_source \<Rightarrow> bool list list \<Rightarrow> string \<Rightarrow> intensities" where
  "region_intensity E tbr source msk rid_str =
     (case tbr rid_str of
        Some tg \<Rightarrow> (Some tg, None, None, None)
      | None \<Rightarrow> intensity_from_pixels E source msk)"

subsection \<open>The loop over the results of an annotation\<close>

text \<open>
  One iteration of the main loop (lines 318--418) for the result at position \<open>i\<close>, given the
  set of region ids already processed: \<open>None\<close> when the iteration ends in
  \<^verbatim>\<open>continue\<close>, else the grouping key, the row and the region id string that the end of the
  iteration appends and records.
\<close>

definition process_result ::
  "env \<Rightarrow> json \<Rightarrow> json \<Rightarrow> json \<Rightarrow> (string \<rightharpoonup> string) \<Rightarrow> (string \<rightharpoonup> real) \<Rightarrow> string set \<Rightarrow>
   nat \<Rightarrow> json \<Rightarrow> error + (string \<times> row \<times> string) option" where
  "process_result E tid data aid lbr tbr processed i res =
     err_bind (result_rtype E res) (\<lambda>rtype.
     err_bind (result_value res) (\<lambda>val.
     err_bind (result_image_url E data res) (\<lambda>image_url.
       if \<not> py_truthy image_url then Inr None
       else
         err_bind (result_size E res val (resolve_image_source E (py_str E image_url))) (\<lambda>(w, h).
           if w = 0 \<or> h = 0 then Inr None
           else
             err_bind (result_is_mask rtype val) (\<lambda>is_mask.
             err_bind (result_is_polygon rtype val) (\<lambda>is_polygon.
             err_bind (result_region_id E i rtype res) (\<lambda>rid.
               if py_str E rid \<in> processed then Inr None
               else
                 err_bind (region_shape E lbr val w h (py_str E rid) is_mask is_polygon) (\<lambda>shp.
                   case shp of
                     None \<Rightarrow> Inr None
                   | Some (msk, stype, lab, pts) \<Rightarrow>
                       err_bind (compute_bbox_and_area msk) (\<lambda>(bx, by, bw, bh, area).
                         case region_intensity E tbr
                                (resolve_image_source E (py_str E image_url)) msk (py_str E rid) of
                           (m_gray, m_r, m_g, m_b) \<Rightarrow>
                             Inr (Some
                               (src_filename (resolve_image_source E (py_str E image_url))
                                  @ ''__task_'' @ py_str E tid,
                                \<lparr>image_filename =
                                   src_filename (resolve_image_source E (py_str E image_url)),
                                 task_id = tid, annotation_id = aid, region_id = rid,
                                 label = lab, shape_type = stype,
                                 bbox_x_px = bx, bbox_y_px = by,
                                 x_length_px = bw, y_length_px = bh, area_px = area,
                                 mean_gray = m_gray, mean_r = m_r, mean_g = m_g, mean_b = m_b,
                                 polygon_points_px = pts\<rparr>,
                                py_str E rid)))))))))))"

text \<open>The state of the loop is \<^verbatim>\<open>processed_region_ids\<close> and \<^verbatim>\<open>rows_by_image\<close>.\<close>

fun results_loop ::
  "env \<Rightarrow> json \<Rightarrow> json \<Rightarrow> json \<Rightarrow> (string \<rightharpoonup> string) \<Rightarrow> (string \<rightharpoonup> real) \<Rightarrow> nat \<Rightarrow> json list \<Rightarrow>
   string set \<times> (string \<times> row list) list \<Rightarrow> error + (string set \<times> (string \<times> row list) list)" where
  "results_loop E tid data aid lbr tbr i [] st = Inr st"
| "results_loop E tid data aid lbr tbr i (res # rest) st =
     (case process_result E tid data aid lbr tbr (fst st) i res of
        Inl e \<Rightarrow> Inl e
      | Inr None \<Rightarrow> results_loop E tid data aid lbr tbr (Suc i) rest st
      | Inr (Some (k, r, rid_str)) \<Rightarrow>
          results_loop E tid data aid lbr tbr (Suc i) rest
            (insert rid_str (fst st), append_row k r (snd st)))"

subsection \<open>Annotations, tasks and the batch\<close>

text \<open>Lines 290--418 for one annotation: the pre-scan, then the main loop with no region
  id processed yet.\<close>

definition process_annotation ::
  "env \<Rightarrow> json \<Rightarrow> json \<Rightarrow> (string \<times> row list) list \<Rightarrow> json \<Rightarrow> error + (string \<times> row list) list" where
  "process_annotation E tid data rbi ann =
     err_bind (dict_get ann ''id'') (\<lambda>aid.
     err_bind (dict_get ann ''result'') (\<lambda>r.
     err_bind (py_iter (py_or r (JList []))) (\<lambda>results.
     err_bind (prescan E results (Map.empty, Map.empty)) (\<lambda>maps.
     err_bind (results_loop E tid data aid (fst maps) (snd maps) 0 results ({}, rbi)) (\<lambda>st.
       Inr (snd st))))))"

fun annotations_loop ::
  "env \<Rightarrow> json \<Rightarrow> json \<Rightarrow> json list \<Rightarrow> (string \<times> row list) list \<Rightarrow> error + (string \<times> row list) list" where
  "annotations_loop E tid data [] rbi = Inr rbi"
| "annotations_loop E tid data (ann # rest) rbi =
     (case process_annotation E tid data rbi ann of
        Inl e \<Rightarrow> Inl e
      | Inr rbi' \<Rightarrow> annotations_loop E tid data rest rbi')"

text \<open>Lines 285--290 for one task.\<close>

definition process_task ::
  "env \<Rightarrow> (string \<times> row list) list \<Rightarrow> json \<Rightarrow> error + (string \<times> row list) list" where
  "process_task E rbi task =
     err_bind (dict_get task ''id'') (\<lambda>tid.
     err_bind (dict_get task ''data'') (\<lambda>d.
     err_bind (dict_get task ''annotations'') (\<lambda>a.
     err_bind (py_iter (py_or a (JList []))) (\<lambda>anns.
       annotations_loop E tid (py_or d (JDict [])) anns rbi))))"

fun tasks_loop ::
  "env \<Rightarrow> json list \<Rightarrow> (string \<times> row list) list \<Rightarrow> error + (string \<times> row list) list" where
  "tasks_loop E [] rbi = Inr rbi"
| "tasks_loop E (task # rest) rbi =
     (case process_task E rbi task of
        Inl e \<Rightarrow> Inl e
      | Inr rbi' \<Rightarrow> tasks_loop E rest rbi')"

text \<open>
  \<^verbatim>\<open>export_segmentation_metrics\<close> (lines 269--451).  What is returned stands for the
  archive: one table per key of \<^verbatim>\<open>rows_by_image\<close>, and whether the note
  \<^verbatim>\<open>README.txt\<close> is included (no table has a row).  Writing the files and packing the
  archive are not modelled.
\<close>

record export_archive =
  tables :: "(string \<times> row list) list"
  readme :: bool

definition export_segmentation_metrics :: "env \<Rightarrow> json list \<Rightarrow> error + export_archive" where
  "export_segmentation_metrics E tasks =
     err_bind (tasks_loop E tasks []) (\<lambda>rbi.
       Inr \<lparr>tables = rbi, readme = \<not> list_ex (\<lambda>kv. snd kv \<noteq> []) rbi\<rparr>)"

section \<open>The decoder as the specification describes it\<close>

text \<open>
  The description of the mask decoder, written down from its words and not from the code:
  walk the run lengths with a current value, starting at background; a run length that is
  zero or negative flips the value and consumes nothing; a positive run length \<open>L\<close> fills
  \<open>min L remaining\<close> positions with the current value and then flips it; consumption stops
  once no position remains; the positions that no run covers are background.
\<close>

fun spec_decode_flat :: "nat \<Rightarrow> bool \<Rightarrow> int list \<Rightarrow> bool list" where
  "spec_decode_flat remaining cur [] = replicate remaining False"
| "spec_decode_flat remaining cur (L # runs) =
     (if L \<le> 0 then spec_decode_flat remaining (\<not> cur) runs
      else replicate (min (nat L) remaining) cur @
           (if remaining - min (nat L) remaining = 0 then []
            else spec_decode_flat (remaining - min (nat L) remaining) (\<not> cur) runs))"

section \<open>Overrides and image modes as the claims speak of them\<close>

text \<open>
  The textual override that one result supplies, written down from the words of the claims
  and not from the pre-scan: the result has a region id, its type is \<^verbatim>\<open>textarea\<close>, its value
  holds a non-empty list under \<^verbatim>\<open>text\<close>, and the first entry of the list parses as a
  number.  The override is that number, for the region id as a string.
\<close>

definition spec_textarea_override :: "env \<Rightarrow> json \<Rightarrow> (string \<times> real) option" where
  "spec_textarea_override E res =
     (case res of
        JDict d \<Rightarrow>
          (case map_of d ''id'' of
             None \<Rightarrow> None
           | Some rid \<Rightarrow>
               if rid = JNone \<or> map_of d ''type'' \<noteq> Some (JStr ''textarea'') then None
               else
                 (case map_of d ''value'' of
                    Some (JDict v) \<Rightarrow>
                      (case map_of v ''text'' of
                         Some (JList (t0 # ts)) \<Rightarrow>
                           map_option (\<lambda>x. (py_str E rid, x))
                             (py_float E (py_strip E (py_str E t0)))
                       | _ \<Rightarrow> None)
                  | _ \<Rightarrow> None))
      | _ \<Rightarrow> None)"

text \<open>The override that the results of an annotation supply for a region id string: that
  of the last result that supplies one for it.\<close>

fun spec_override_of :: "env \<Rightarrow> json list \<Rightarrow> string \<Rightarrow> real option" where
  "spec_override_of E [] s = None"
| "spec_override_of E (res # rest) s =
     (case spec_override_of E rest s of
        Some x \<Rightarrow> Some x
      | None \<Rightarrow>
          (case spec_textarea_override E res of
             None \<Rightarrow> None
           | Some sx \<Rightarrow> if fst sx = s then Some (snd sx) else None))"


section \<open>Observations and a scenario\<close>

text \<open>All rows of the tables accumulated so far, table by table.\<close>

definition all_rows :: "(string \<times> row list) list \<Rightarrow> row list" where
  "all_rows rbi = concat (map snd rbi)"

text \<open>
  Collaborators for the concrete scenarios below.  The scenarios only pass strings that
  are already lower case and stripped, and sizes that are integers; no image can be opened,
  the label configuration names the data field \<^verbatim>\<open>image\<close>, and the display filename of a
  reference is the reference itself.
\<close>

definition scenario_env :: env where
  "scenario_env =
     \<lparr>py_str = (\<lambda>j. case j of JStr s \<Rightarrow> s | _ \<Rightarrow> ''None''),
      py_lower = (\<lambda>s. s),
      py_strip = (\<lambda>s. s),
      py_float = (\<lambda>s. if s = ''12.5'' then Some (25 / 2) else None),
      py_int = (\<lambda>j. case j of JInt n \<Rightarrow> Inr n | _ \<Rightarrow> Inl ValueError),
      object_id = (\<lambda>i. ''0''),
      object_value_key = (\<lambda>tn. Inr (JStr ''image'')),
      resolve_image_source = (\<lambda>u. \<lparr>src_url = u, src_path = None, src_filename = u\<rparr>),
      open_image = (\<lambda>src. None),
      draw_polygon = (\<lambda>ps w h. np_zeros2 h w),
      download_resources = False\<rparr>"

text \<open>
  A task with the image \<^verbatim>\<open>a.png\<close>; a brush region \<^verbatim>\<open>r1\<close> on a 3 by 2 image whose mask
  is \<open>[[F, T, T], [F, F, F]]\<close>; a textarea result for \<^verbatim>\<open>r1\<close> with the text \<^verbatim>\<open>12.5\<close>
  and one with the text \<^verbatim>\<open>n/a\<close>; a polygon region whose single vertex has one coordinate;
  and the row of \<^verbatim>\<open>r1\<close> with a given gray mean.
\<close>

definition scenario_data :: json where
  "scenario_data = JDict [(''image'', JStr ''a.png'')]"

definition scenario_brush :: json where
  "scenario_brush =
     JDict [(''id'', JStr ''r1''), (''type'', JStr ''brushlabels''),
            (''original_width'', JInt 3), (''original_height'', JInt 2),
            (''value'', JDict [(''format'', JStr ''rle''), (''rle'', JList [JInt 1, JInt 2]),
                               (''brushlabels'', JList [JStr ''cell''])])]"

definition scenario_textarea :: json where
  "scenario_textarea =
     JDict [(''id'', JStr ''r1''), (''type'', JStr ''textarea''),
            (''value'', JDict [(''text'', JList [JStr ''12.5''])])]"

definition scenario_textarea_bad :: json where
  "scenario_textarea_bad =
     JDict [(''id'', JStr ''r1''), (''type'', JStr ''textarea''),
            (''value'', JDict [(''text'', JList [JStr ''n/a''])])]"

definition scenario_polygon :: json where
  "scenario_polygon =
     JDict [(''id'', JStr ''p1''), (''type'', JStr ''polygonlabels''),
            (''original_width'', JInt 3), (''original_height'', JInt 2),
            (''value'', JDict [(''points'', JList [JList [JFloat 10]]),
                               (''polygonlabels'', JList [JStr ''cell''])])]"

definition scenario_task :: "json list \<Rightarrow> json" where
  "scenario_task results =
     JDict [(''id'', JStr ''t1''), (''data'', scenario_data),
            (''annotations'', JList [JDict [(''id'', JStr ''a1''), (''result'', JList results)]])]"

definition scenario_row :: "real option \<Rightarrow> row" where
  "scenario_row g =
     \<lparr>image_filename = ''a.png'', task_id = JStr ''t1'', annotation_id = JStr ''a1'',
      region_id = JStr ''r1'', label = ''cell'', shape_type = ''mask'',
      bbox_x_px = 1, bbox_y_px = 0, x_length_px = 1, y_length_px = 0, area_px = 2,
      mean_gray = g, mean_r = None, mean_g = None, mean_b = None, polygon_points_px = []\<rparr>"

text \<open>
  The brush region \<^verbatim>\<open>r1\<close> without any run-length list; a grayscale image of the size of
  the scenario, and the collaborators with an opener that returns it.
\<close>

definition scenario_brush_norle :: json where
  "scenario_brush_norle =
     JDict [(''id'', JStr ''r1''), (''type'', JStr ''brushlabels''),
            (''original_width'', JInt 3), (''original_height'', JInt 2),
            (''value'', JDict [(''brushlabels'', JList [JStr ''cell''])])]"

definition scenario_image :: pil_image where
  "scenario_image =
     \<lparr>img_mode = ''L'', img_width = 3, img_height = 2,
      img_gray = Inr [[10, 20, 40], [0, 0, 0]], img_rgb = Inl ValueError\<rparr>"

definition scenario_env_open :: env where
  "scenario_env_open = scenario_env\<lparr>open_image := (\<lambda>src. Some scenario_image)\<rparr>"

section \<open>Exceptions: basic facts\<close>

lemma err_bind_Inr [simp]: "err_bind (Inr x) f = f x"
  by (simp add: err_bind_def)

lemma err_bind_Inl [simp]: "err_bind (Inl e) f = Inl e"
  by (simp add: err_bind_def)

section \<open>The mask decoder\<close>

lemma slice_fill_mid:
  assumes "0 \<le> i" "i \<le> j" "j \<le> int (length flat)"
  shows "slice_fill flat i j v = take (nat i) flat @ replicate (nat j - nat i) v @ drop (nat j) flat"
  using assms
  by (intro nth_equalityI) (auto simp: slice_fill_def slice_bound_def nth_append Let_def min_def)

lemma py_min_int: "py_min (PInt a) (PInt b) = PInt (min a b)"
  by (simp add: py_min_def min_def)

lemma num_le_int: "num_le (PInt a) (PInt b) = (a \<le> b)"
  by (simp add: num_le_def)

lemma fill_step:
  assumes "0 \<le> idx" "idx \<le> e" "e \<le> tot" "length dn = nat idx"
  shows "slice_fill (dn @ replicate (nat tot - nat idx) 0) idx e (Suc 0)
         = dn @ replicate (nat e - nat idx) (Suc 0) @ replicate (nat tot - nat e) 0"
proof -
  have len: "e \<le> int (length (dn @ replicate (nat tot - nat idx) 0))"
    using assms by simp
  have d: "drop (nat e) (dn @ replicate (nat tot - nat idx) 0) = replicate (nat tot - nat e) 0"
    using assms by simp
  show ?thesis
    using assms by (simp add: slice_fill_mid [OF assms(1,2) len] d)
qed

lemma split_zeros:
  assumes "0 \<le> idx" "idx \<le> e" "e \<le> tot"
  shows "replicate (nat tot - nat idx) (0::nat) = replicate (nat e - nat idx) 0 @ replicate (nat tot - nat e) 0"
proof -
  have "nat tot - nat idx = (nat e - nat idx) + (nat tot - nat e)" using assms by linarith
  then show ?thesis by (simp add: replicate_add)
qed

lemma rle_loop_spec:
  assumes "0 \<le> idx" "idx < tot" "length dn = nat idx" "val = 0 \<or> val = 1"
  shows "rle_loop tot (map JInt rle) (dn @ replicate (nat tot - nat idx) 0) val (PInt idx)
         = Inr (dn @ map (\<lambda>b. if b then 1 else 0) (spec_decode_flat (nat tot - nat idx) (val = 1) rle))"
  using assms
proof (induction rle arbitrary: dn val idx)
  case Nil
  then show ?case by (simp add: map_replicate_const)
next
  case (Cons L rle)
  show ?case
  proof (cases "L \<le> 0")
    case True
    have v: "1 - val = 0 \<or> 1 - val = 1" using Cons.prems(4) by auto
    have flip: "(1 - val = 1) = (\<not> val = 1)" using Cons.prems(4) by auto
    show ?thesis
      using True Cons.IH [OF Cons.prems(1,2,3) v] by (simp add: num_le_int flip)
  next
    case False
    define e where "e = min (idx + L) tot"
    have e1: "idx \<le> e" "e \<le> tot" "idx < e" using False Cons.prems by (auto simp: e_def)
    define b where "b = (if val = 1 then Suc 0 else 0)"
    define flat' where "flat' = dn @ replicate (nat e - nat idx) b @ replicate (nat tot - nat e) 0"
    have s1: "val = 1 \<Longrightarrow> slice_fill (dn @ replicate (nat tot - nat idx) 0) idx e (Suc 0) = flat'"
      using fill_step [OF Cons.prems(1) e1(1,2) Cons.prems(3)] by (simp add: flat'_def b_def)
    have s0: "val \<noteq> 1 \<Longrightarrow> dn @ replicate (nat tot - nat idx) 0 = flat'"
      using split_zeros [OF Cons.prems(1) e1(1,2)] by (simp add: flat'_def b_def)
    have loop: "rle_loop tot (map JInt (L # rle)) (dn @ replicate (nat tot - nat idx) 0) val (PInt idx)
          = (if tot \<le> e then Inr flat' else rle_loop tot (map JInt rle) flat' (1 - val) (PInt e))"
    proof (cases "val = 1")
      case True
      then show ?thesis using False s1 by (simp add: num_le_int py_min_int e_def [symmetric])
    next
      case V0: False
      then show ?thesis using False s0 by (simp add: num_le_int py_min_int e_def [symmetric])
    qed
    show ?thesis
    proof (cases "tot \<le> e")
      case True
      then have "e = tot" using e1 by simp
      then have m: "min (nat L) (nat tot - nat idx) = nat tot - nat idx"
        using False Cons.prems by (auto simp: e_def min_def split: if_splits)
      show ?thesis
        using True False loop m \<open>e = tot\<close>
        by (simp add: flat'_def b_def map_replicate_const)
    next
      case F2: False
      then have el: "e = idx + L" using e1 by (auto simp: e_def min_def split: if_splits)
      have m: "min (nat L) (nat tot - nat idx) = nat L" using F2 False Cons.prems el by auto
      have k: "nat e - nat idx = nat L" using el Cons.prems False by auto
      have r: "nat tot - nat idx - nat L = nat tot - nat e" using el Cons.prems False by auto
      have pos: "nat tot - nat e \<noteq> 0" using F2 e1 Cons.prems by auto
      have v: "1 - val = 0 \<or> 1 - val = 1" using Cons.prems(4) by auto
      have flip: "(1 - val = 1) = (\<not> val = 1)" using Cons.prems(4) by auto
      have e0: "0 \<le> e" "e < tot" using e1 Cons.prems F2 by auto
      have ln: "length (dn @ replicate (nat e - nat idx) b) = nat e"
        using Cons.prems e1 by auto
      have "rle_loop tot (map JInt rle) ((dn @ replicate (nat e - nat idx) b) @ replicate (nat tot - nat e) 0) (1 - val) (PInt e)
           = Inr ((dn @ replicate (nat e - nat idx) b) @ map (\<lambda>b. if b then 1 else 0) (spec_decode_flat (nat tot - nat e) (1 - val = 1) rle))"
        by (rule Cons.IH [OF e0 ln v])
      then show ?thesis
        using F2 False loop m k r pos
        by (simp add: flat'_def flip b_def map_replicate_const)
    qed
  qed
qed


lemma length_spec_decode_flat: "length (spec_decode_flat n cur rle) = n"
  by (induction rle arbitrary: n cur) auto

lemma rle_loop_start:
  assumes "0 < tot"
  shows "rle_loop tot (map JInt rle) (replicate (nat tot) 0) 0 (PInt 0)
         = Inr (map (\<lambda>b. if b then 1 else 0) (spec_decode_flat (nat tot) False rle))"
  using rle_loop_spec [of 0 tot "[]" 0 rle] assms by simp

lemma cell_index:
  assumes "r < h" "c < (w::nat)"
  shows "r * w + c < h * w"
proof -
  have "r * w + c < Suc r * w" using assms by simp
  also have "\<dots> \<le> h * w" using assms by (intro mult_le_mono1) simp
  finally show ?thesis .
qed

text \<open>
  Claim C1, as the code has it.  Decoding the run-length list \<open>[0, 1, 1, 2, 3]\<close> over a
  grid of width 7 and height 1 gives the mask \<open>[T, F, T, T, F, F, F]\<close>: the leading run of
  length zero consumes no position and flips the value to foreground, so the runs of
  lengths 1, 1, 2, 3 are foreground, background, foreground, background.
\<close>

theorem decode_reference_scenario:
  "decode_brush_rle_to_mask (map JInt [0, 1, 1, 2, 3]) 7 1 =
     Inr [[True, False, True, True, False, False, False]]"
  by (simp add: decode_brush_rle_to_mask_def np_reshape_def num_le_def py_min_def
      slice_fill_def slice_bound_def upt_rec)

text \<open>
  Claim C1 as stated: the same call would give \<open>[F, T, F, F, T, T, F]\<close>.  It does not.
\<close>

theorem decode_reference_scenario_counterexample:
  "decode_brush_rle_to_mask (map JInt [0, 1, 1, 2, 3]) 7 1 \<noteq>
     Inr [[False, True, False, False, True, True, False]]"
  by (simp add: decode_brush_rle_to_mask_def np_reshape_def num_le_def py_min_def
      slice_fill_def slice_bound_def upt_rec)

text \<open>
  Claim C2.  For every list of integer run lengths and every width and height of at least
  one, the decoder returns a mask of \<open>height\<close> rows of \<open>width\<close> cells whose cell
  \<open>(r, c)\<close> is position \<open>r * width + c\<close> of the flat buffer that the description
  \<open>spec_decode_flat\<close> produces: zero or negative run lengths flip the value and consume
  nothing, a positive run length fills \<open>min L remaining\<close> positions and flips, consumption
  stops at \<open>width * height\<close>, and uncovered positions are background.
\<close>

theorem decode_matches_description:
  assumes "1 \<le> width" "1 \<le> height"
  shows "\<exists>msk. decode_brush_rle_to_mask (map JInt rle) width height = Inr msk \<and>
           length msk = nat height \<and>
           (\<forall>r < nat height. length (msk ! r) = nat width \<and>
              (\<forall>c < nat width.
                 msk ! r ! c = spec_decode_flat (nat (width * height)) False rle ! (r * nat width + c)))"
proof -
  define fl where "fl = spec_decode_flat (nat (width * height)) False rle"
  define g where "g = (\<lambda>b. if b then 1 else (0::nat))"
  define rows where "rows = map (\<lambda>r. take (nat width) (drop (r * nat width) (map g fl))) [0..<nat height]"
  have pos: "0 < width * height" using assms by simp
  have ng: "(width * height < 0) = False" using pos by simp
  have len: "length fl = nat height * nat width"
    using assms by (simp add: fl_def length_spec_decode_flat nat_mult_distrib mult.commute)
  have prod: "height * width = int (nat height * nat width)"
    using assms by simp
  have loop: "rle_loop (width * height) (map JInt rle) (replicate (nat (width * height)) 0) 0 (PInt 0)
        = Inr (map g fl)"
    unfolding g_def fl_def by (rule rle_loop_start [OF pos])
  have rs: "np_reshape (map g fl) height width = Inr rows"
    using assms prod by (simp add: np_reshape_def len rows_def)
  have dec: "decode_brush_rle_to_mask (map JInt rle) width height = Inr (map (map (\<lambda>x. 0 < x)) rows)"
    by (simp only: decode_brush_rle_to_mask_def Let_def ng if_False loop rs sum.case)
  have inb: "r * nat width + c < length fl" if "r < nat height" "c < nat width" for r c
    using cell_index [OF that] len by simp
  have fit: "nat width \<le> length fl - r * nat width" if "r < nat height" for r
  proof -
    have "Suc r * nat width \<le> nat height * nat width" using that by (intro mult_le_mono1) simp
    then have "nat width + r * nat width \<le> nat height * nat width" by simp
    then show ?thesis unfolding len by linarith
  qed
  have nrows: "length (map (map (\<lambda>x. 0 < x)) rows) = nat height"
    by (simp add: rows_def)
  have rowlen: "length (map (map (\<lambda>x. 0 < x)) rows ! r) = nat width" if "r < nat height" for r
    using that fit [OF that] by (simp add: rows_def min_def)
  have cell: "map (map (\<lambda>x. 0 < x)) rows ! r ! c = fl ! (r * nat width + c)"
    if "r < nat height" "c < nat width" for r c
    using that inb [OF that] fit [OF that(1)] by (simp add: rows_def g_def)
  show ?thesis
    unfolding dec fl_def [symmetric]
    using nrows rowlen cell by blast
qed

theorem decode_matches_description_witness:
  "(1::int) \<le> 7 \<and> (1::int) \<le> 1 \<and>
   (\<exists>msk. decode_brush_rle_to_mask (map JInt [0, 1, 1, 2, 3]) 7 1 = Inr msk \<and>
           length msk = nat 1 \<and>
           (\<forall>r < nat 1. length (msk ! r) = nat 7 \<and>
              (\<forall>c < nat 7.
                 msk ! r ! c = spec_decode_flat (nat (7 * 1)) False [0, 1, 1, 2, 3] ! (r * nat 7 + c))))"
  using decode_matches_description [of 7 1 "[0, 1, 1, 2, 3]"] by simp

section \<open>The geometry analyzer\<close>

lemma set_np_where:
  "set (np_where msk) = {(r, c). r < length msk \<and> c < length (msk ! r) \<and> msk ! r ! c}"
  by (auto simp: np_where_def)

lemma distinct_concat_map:
  assumes "distinct xs" "\<And>x. x \<in> set xs \<Longrightarrow> distinct (f x)"
    and "\<And>x y. x \<in> set xs \<Longrightarrow> y \<in> set xs \<Longrightarrow> x \<noteq> y \<Longrightarrow> set (f x) \<inter> set (f y) = {}"
  shows "distinct (concat (map f xs))"
  using assms
proof (induction xs)
  case Nil
  then show ?case by simp
next
  case (Cons a xs)
  have "distinct (concat (map f xs))"
    by (rule Cons.IH) (use Cons.prems in auto)
  moreover have "distinct (f a)" using Cons.prems(2) by simp
  moreover have "set (f a) \<inter> set (f y) = {}" if "y \<in> set xs" for y
    using Cons.prems(3) [of a y] Cons.prems(1) that by auto
  ultimately show ?case by auto
qed

lemma distinct_np_where: "distinct (np_where msk)"
  unfolding np_where_def
  by (rule distinct_concat_map) (auto simp: distinct_map inj_on_def)

lemma count_true_indices:
  "length (filter (\<lambda>c. xs ! c) [0..<length xs]) = length (filter (\<lambda>b. b) xs)"
proof -
  have "filter (\<lambda>b. b) xs = filter (\<lambda>b. b) (map (\<lambda>c. xs ! c) [0..<length xs])"
    by (simp add: map_nth)
  also have "\<dots> = map (\<lambda>c. xs ! c) (filter (\<lambda>c. xs ! c) [0..<length xs])"
    by (simp add: filter_map comp_def)
  finally show ?thesis by simp
qed

lemma length_np_where: "length (np_where msk) = mask_sum msk"
proof -
  have "length (np_where msk) = sum_list (map (\<lambda>r. length (filter (\<lambda>b. b) (msk ! r))) [0..<length msk])"
    by (simp add: np_where_def length_concat comp_def count_true_indices)
  also have "\<dots> = sum_list (map (\<lambda>row. length (filter (\<lambda>b. b) row)) (map (\<lambda>r. msk ! r) [0..<length msk]))"
    by (simp add: comp_def)
  finally show ?thesis by (simp add: mask_sum_def map_nth)
qed

lemma np_min_Min: "xs \<noteq> [] \<Longrightarrow> np_min xs = Inr (Min (set xs))"
  by (cases xs) (simp_all add: Min.set_eq_fold [symmetric] del: set_simps)

lemma np_max_Max: "xs \<noteq> [] \<Longrightarrow> np_max xs = Inr (Max (set xs))"
  by (cases xs) (simp_all add: Max.set_eq_fold [symmetric] del: set_simps)

text \<open>
  Claim C3.  For every mask the analyzer returns, without raising: all zeros when no pixel
  is true; otherwise the least column and the least row of a true pixel, the differences
  \<open>max_col - min_col\<close> and \<open>max_row - min_row\<close>, and the number of true pixels.
\<close>

theorem bbox_and_area:
  "compute_bbox_and_area msk =
     Inr (let P = {(r, c). r < length msk \<and> c < length (msk ! r) \<and> msk ! r ! c} in
          if P = {} then (0, 0, 0, 0, 0)
          else (int (Min (snd ` P)), int (Min (fst ` P)),
                int (Max (snd ` P)) - int (Min (snd ` P)),
                int (Max (fst ` P)) - int (Min (fst ` P)),
                int (card P)))"
proof -
  define P where "P = {(r, c). r < length msk \<and> c < length (msk ! r) \<and> msk ! r ! c}"
  have sP: "set (np_where msk) = P" by (simp add: set_np_where P_def)
  have cP: "int (card P) = int (mask_sum msk)"
    using distinct_card [OF distinct_np_where, of msk] by (simp add: sP length_np_where)
  show ?thesis
  proof (cases "np_where msk = []")
    case True
    then have "P = {}" using sP by simp
    then show ?thesis using True by (simp add: compute_bbox_and_area_def P_def [symmetric])
  next
    case False
    then have ne: "P \<noteq> {}" using sP by auto
    have fin: "finite P" using sP by (metis List.finite_set)
    have xs: "set (map snd (np_where msk)) = snd ` P" and ys: "set (map fst (np_where msk)) = fst ` P"
      using sP by auto
    have mx: "Min (snd ` P) \<le> Max (snd ` P)" and my: "Min (fst ` P) \<le> Max (fst ` P)"
      using fin ne by (auto intro!: Min_le_iff [THEN iffD2] simp: )
    show ?thesis
      using False ne mx my
      by (simp add: compute_bbox_and_area_def Let_def np_min_Min np_max_Max sP cP P_def [symmetric])
  qed
qed

section \<open>The intensity aggregator\<close>





section \<open>The polygon rasterizer\<close>

text \<open>
  Claim C8.  For every width and height of at least one, and whatever the scan-fill does,
  rasterizing the empty vertex list returns, without raising, the mask of \<open>height\<close> rows
  of \<open>width\<close> false cells.
\<close>

theorem rasterize_empty:
  "1 \<le> width \<Longrightarrow> 1 \<le> height \<Longrightarrow>
   rasterize_polygon draw [] width height = Inr (replicate (nat height) (replicate (nat width) False))"
  by (simp add: rasterize_polygon_def np_zeros2_def)

theorem rasterize_empty_witness:
  "(1::int) \<le> 3 \<and> (1::int) \<le> 2 \<and>
   rasterize_polygon (\<lambda>ps w h. Inl ValueError) [] 3 2 =
     Inr [[False, False, False], [False, False, False]]"
  using rasterize_empty [of 3 2 "\<lambda>ps w h. Inl ValueError"]
  by (simp add: numeral_2_eq_2 numeral_3_eq_3)

section \<open>Regions without a run-length list\<close>

lemma np_where_all_false: "np_where (replicate h (replicate w False)) = []"
proof -
  have "set (np_where (replicate h (replicate w False))) = {}"
    by (auto simp: set_np_where)
  then show ?thesis by simp
qed

lemma mask_sum_all_false: "mask_sum (replicate h (replicate w False)) = 0"
  by (simp add: mask_sum_def)

lemma rows_of_replicate:
  "map (\<lambda>r. take w (drop (r * w) (replicate (h * w) x))) [0..<h] = replicate h (replicate w x)"
proof -
  have row: "take w (drop (r * w) (replicate (h * w) x)) = replicate w x" if "r < h" for r
  proof -
    have "Suc r * w \<le> h * w" using that by (intro mult_le_mono1) simp
    then have "w + r * w \<le> h * w" by simp
    then have "w \<le> h * w - r * w" by linarith
    then show ?thesis by (simp add: min_def)
  qed
  have "map (\<lambda>r. take w (drop (r * w) (replicate (h * w) x))) [0..<h] = map (\<lambda>r. replicate w x) [0..<h]"
  proof (rule map_cong)
    fix r assume "r \<in> set [0..<h]"
    then have "r < h" by simp
    then show "take w (drop (r * w) (replicate (h * w) x)) = replicate w x"
      by (rule row)
  qed simp
  then show ?thesis by (simp only: map_replicate_const length_upt diff_zero)
qed

lemma reshape_zeros:
  assumes "0 \<le> w" "0 \<le> h"
  shows "np_reshape (replicate (nat (w * h)) (0::nat)) h w = Inr (replicate (nat h) (replicate (nat w) 0))"
proof -
  have n: "nat (w * h) = nat h * nat w" using assms by (simp add: nat_mult_distrib mult.commute)
  have c: "(h < 0 \<or> w < 0 \<or> h * w \<noteq> int (length (replicate (nat h * nat w) (0::nat)))) = False"
    using assms by simp
  show ?thesis
    by (simp only: n np_reshape_def c if_False rows_of_replicate)
qed

lemma decode_empty:
  assumes "0 \<le> w" "0 \<le> h"
  shows "decode_brush_rle_to_mask [] w h = Inr (replicate (nat h) (replicate (nat w) False))"
proof -
  have ng: "(w * h < 0) = False" using assms by (simp add: mult_less_0_iff)
  show ?thesis
    by (simp add: decode_brush_rle_to_mask_def Let_def ng reshape_zeros [OF assms])
qed


lemma compute_bbox_all_false:
  "compute_bbox_and_area (replicate h (replicate w False)) = Inr (0, 0, 0, 0, 0)"
  by (simp add: compute_bbox_and_area_def np_where_all_false)

lemma intensity_all_false:
  "intensity_from_pixels E source (replicate h (replicate w False)) = (None, None, None, None)"
  by (simp add: intensity_from_pixels_def compute_intensities_def mask_sum_all_false
      split: option.splits)

lemma first_label_dict:
  "\<exists>l. first_label_from_result_value E (JDict v) k = Inr l"
  by (simp add: first_label_from_result_value_def split: json.splits)

lemma region_label_dict:
  "\<exists>l. region_label E lbr (JDict v) k s = Inr l"
  using first_label_dict [of E v k] by (auto simp: region_label_def)

lemma decode_region_no_rle:
  assumes "\<not> py_truthy (case map_of v ''rle'' of None \<Rightarrow> JNone | Some x \<Rightarrow> x)"
    and "0 \<le> w" "0 \<le> h"
  shows "decode_region (JDict v) w h = Inr (Some (replicate (nat h) (replicate (nat w) False)))"
  using assms by (simp add: decode_region_def py_or_def decode_empty)

text \<open>
  Claim C9, as the code has it.  A result of type \<^verbatim>\<open>brushlabels\<close> whose value has no
  run-length list (the entry \<^verbatim>\<open>rle\<close> is missing, null or empty), whose image reference
  resolves and whose size resolves to a width and height of at least one, and whose region
  id has not been processed in this annotation, is not skipped: the iteration emits a row
  of shape type \<^verbatim>\<open>mask\<close> with bounding box, extents and area all zero, no polygon points,
  red, green and blue means absent, and a gray mean that is the textual override of the
  region id when there is one and absent otherwise.
\<close>

theorem empty_rle_region_emits_row:
  assumes rtype: "result_rtype E res = Inr ''brushlabels''"
    and val: "result_value res = Inr (JDict v)"
    and rle: "\<not> py_truthy (case map_of v ''rle'' of None \<Rightarrow> JNone | Some x \<Rightarrow> x)"
    and url: "result_image_url E data res = Inr image_url" "py_truthy image_url"
    and size: "result_size E res (JDict v) (resolve_image_source E (py_str E image_url)) = Inr (w, h)"
      "1 \<le> w" "1 \<le> h"
    and rid: "result_region_id E i ''brushlabels'' res = Inr rid" "py_str E rid \<notin> processed"
  shows "\<exists>k r. process_result E tid data aid lbr tbr processed i res = Inr (Some (k, r, py_str E rid)) \<and>
           region_id r = rid \<and> shape_type r = ''mask'' \<and>
           bbox_x_px r = 0 \<and> bbox_y_px r = 0 \<and> x_length_px r = 0 \<and> y_length_px r = 0 \<and>
           area_px r = 0 \<and>
           mean_gray r = tbr (py_str E rid) \<and> mean_r r = None \<and> mean_g r = None \<and> mean_b r = None \<and>
           polygon_points_px r = []"
proof -
  obtain lab where lab: "region_label E lbr (JDict v) ''brushlabels'' (py_str E rid) = Inr lab"
    using region_label_dict by blast
  have pol: "\<exists>b. result_is_polygon ''brushlabels'' (JDict v) = Inr b"
    by (simp add: result_is_polygon_def)
  then obtain b where b: "result_is_polygon ''brushlabels'' (JDict v) = Inr b" ..
  have shape: "region_shape E lbr (JDict v) w h (py_str E rid) True b
      = Inr (Some (replicate (nat h) (replicate (nat w) False), ''mask'', lab, []))"
    using size(2,3) by (simp add: region_shape_def decode_region_no_rle [OF rle] lab)
  have inten: "region_intensity E tbr src (replicate (nat h) (replicate (nat w) False)) (py_str E rid)
      = (tbr (py_str E rid), None, None, None)" for src
    by (simp add: region_intensity_def intensity_all_false split: option.splits)
  show ?thesis
    using size(2,3) url(2) rid(2)
    by (simp add: process_result_def rtype val url(1) size(1) rid(1) result_is_mask_def b shape
        compute_bbox_all_false inten)
qed

theorem empty_rle_region_emits_row_witness:
  "result_rtype scenario_env
     (JDict [(''id'', JStr ''r1''), (''type'', JStr ''brushlabels''),
             (''original_width'', JInt 3), (''original_height'', JInt 2),
             (''value'', JDict [(''brushlabels'', JList [JStr ''cell''])])]) = Inr ''brushlabels'' \<and>
   result_value
     (JDict [(''id'', JStr ''r1''), (''type'', JStr ''brushlabels''),
             (''original_width'', JInt 3), (''original_height'', JInt 2),
             (''value'', JDict [(''brushlabels'', JList [JStr ''cell''])])])
     = Inr (JDict [(''brushlabels'', JList [JStr ''cell''])]) \<and>
   \<not> py_truthy (case map_of [(''brushlabels'', JList [JStr ''cell''])] ''rle'' of
                  None \<Rightarrow> JNone | Some x \<Rightarrow> x) \<and>
   result_image_url scenario_env (JDict [(''image'', JStr ''a.png'')])
     (JDict [(''id'', JStr ''r1''), (''type'', JStr ''brushlabels''),
             (''original_width'', JInt 3), (''original_height'', JInt 2),
             (''value'', JDict [(''brushlabels'', JList [JStr ''cell''])])]) = Inr (JStr ''a.png'') \<and>
   py_truthy (JStr ''a.png'') \<and>
   result_size scenario_env
     (JDict [(''id'', JStr ''r1''), (''type'', JStr ''brushlabels''),
             (''original_width'', JInt 3), (''original_height'', JInt 2),
             (''value'', JDict [(''brushlabels'', JList [JStr ''cell''])])])
     (JDict [(''brushlabels'', JList [JStr ''cell''])])
     (resolve_image_source scenario_env (py_str scenario_env (JStr ''a.png''))) = Inr (3, 2) \<and>
   (1::int) \<le> 3 \<and> (1::int) \<le> 2 \<and>
   result_region_id scenario_env 0 ''brushlabels''
     (JDict [(''id'', JStr ''r1''), (''type'', JStr ''brushlabels''),
             (''original_width'', JInt 3), (''original_height'', JInt 2),
             (''value'', JDict [(''brushlabels'', JList [JStr ''cell''])])]) = Inr (JStr ''r1'') \<and>
   py_str scenario_env (JStr ''r1'') \<notin> {} \<and>
   (\<exists>k r. process_result scenario_env (JInt 1) (JDict [(''image'', JStr ''a.png'')]) (JInt 5)
            Map.empty Map.empty {} 0
            (JDict [(''id'', JStr ''r1''), (''type'', JStr ''brushlabels''),
                    (''original_width'', JInt 3), (''original_height'', JInt 2),
                    (''value'', JDict [(''brushlabels'', JList [JStr ''cell''])])])
            = Inr (Some (k, r, py_str scenario_env (JStr ''r1''))) \<and>
          region_id r = JStr ''r1'' \<and> shape_type r = ''mask'' \<and>
          bbox_x_px r = 0 \<and> bbox_y_px r = 0 \<and> x_length_px r = 0 \<and> y_length_px r = 0 \<and>
          area_px r = 0 \<and>
          mean_gray r = Map.empty (py_str scenario_env (JStr ''r1'')) \<and>
          mean_r r = None \<and> mean_g r = None \<and> mean_b r = None \<and> polygon_points_px r = [])"
proof -
  let ?res = "JDict [(''id'', JStr ''r1''), (''type'', JStr ''brushlabels''),
             (''original_width'', JInt 3), (''original_height'', JInt 2),
             (''value'', JDict [(''brushlabels'', JList [JStr ''cell''])])]"
  let ?v = "[(''brushlabels'', JList [JStr ''cell''])]"
  let ?data = "JDict [(''image'', JStr ''a.png'')]"
  have h1: "result_rtype scenario_env ?res = Inr ''brushlabels''"
    by (simp add: result_rtype_def scenario_env_def py_or_def)
  have h2: "result_value ?res = Inr (JDict ?v)"
    by (simp add: result_value_def py_or_def)
  have h3: "\<not> py_truthy (case map_of ?v ''rle'' of None \<Rightarrow> JNone | Some x \<Rightarrow> x)"
    by simp
  have h4: "result_image_url scenario_env ?data ?res = Inr (JStr ''a.png'')"
    by (simp add: result_image_url_def result_data_key_def scenario_env_def py_or_def)
  have h5: "py_truthy (JStr ''a.png'')" by simp
  have h6: "result_size scenario_env ?res (JDict ?v)
      (resolve_image_source scenario_env (py_str scenario_env (JStr ''a.png''))) = Inr (3, 2)"
    by (simp add: result_size_def scenario_env_def)
  have h7: "(1::int) \<le> 3" "(1::int) \<le> 2" by simp_all
  have h8: "result_region_id scenario_env 0 ''brushlabels'' ?res = Inr (JStr ''r1'')"
    by (simp add: result_region_id_def)
  have h9: "py_str scenario_env (JStr ''r1'') \<notin> {}" by simp
  show ?thesis
    using h1 h2 h3 h4 h5 h6 h7 h8 h9
      empty_rle_region_emits_row [OF h1 h2 h3 h4 h5 h6 h7 h8 h9, of "JInt 1" "JInt 5" Map.empty Map.empty]
    by blast
qed

section \<open>The scenario, stage by stage\<close>

lemma scenario_mask:
  "decode_brush_rle_to_mask [JInt 1, JInt 2] 3 2 = Inr [[False, True, True], [False, False, False]]"
  by (simp add: decode_brush_rle_to_mask_def np_reshape_def num_le_def py_min_def
      slice_fill_def slice_bound_def upt_rec)

lemma scenario_bbox:
  "compute_bbox_and_area [[False, True, True], [False, False, False]] = Inr (1, 0, 1, 0, 2)"
  by code_simp

lemma scenario_brush_stages:
  "result_rtype scenario_env scenario_brush = Inr ''brushlabels''"
  "result_value scenario_brush =
     Inr (JDict [(''format'', JStr ''rle''), (''rle'', JList [JInt 1, JInt 2]),
                 (''brushlabels'', JList [JStr ''cell''])])"
  "result_image_url scenario_env scenario_data scenario_brush = Inr (JStr ''a.png'')"
  "result_size scenario_env scenario_brush val src = Inr (3, 2)"
  "result_region_id scenario_env i ''brushlabels'' scenario_brush = Inr (JStr ''r1'')"
  by (simp_all add: result_rtype_def result_value_def result_image_url_def result_data_key_def
      result_size_def result_region_id_def py_or_def scenario_env_def scenario_brush_def
      scenario_data_def)

lemma scenario_env_fields:
  "py_str scenario_env (JStr x) = x"
  "src_filename (resolve_image_source scenario_env u) = u"
  "open_image scenario_env src = None"
  by (simp_all add: scenario_env_def)

lemma scenario_brush_shape:
  "region_shape scenario_env lbr
     (JDict [(''format'', JStr ''rle''), (''rle'', JList [JInt 1, JInt 2]),
             (''brushlabels'', JList [JStr ''cell''])]) 3 2 ''r1'' True b
   = Inr (Some ([[False, True, True], [False, False, False]], ''mask'', ''cell'', []))"
  by (simp add: region_shape_def decode_region_def region_label_def
      first_label_from_result_value_def py_or_def scenario_mask scenario_env_fields)

lemma scenario_brush_polygon_flag:
  "result_is_polygon ''brushlabels''
     (JDict [(''format'', JStr ''rle''), (''rle'', JList [JInt 1, JInt 2]),
             (''brushlabels'', JList [JStr ''cell''])]) = Inr False"
  by (simp add: result_is_polygon_def)

lemma scenario_brush_emits:
  "process_result scenario_env (JStr ''t1'') scenario_data (JStr ''a1'') lbr tbr {} i scenario_brush
     = Inr (Some (''a.png__task_t1'', scenario_row (tbr ''r1''), ''r1''))"
  by (simp add: process_result_def scenario_brush_stages scenario_env_fields result_is_mask_def
      scenario_brush_polygon_flag scenario_brush_shape scenario_bbox
      region_intensity_def intensity_from_pixels_def scenario_row_def split: option.splits)


lemma scenario_prescan_brush:
  "prescan_step scenario_env st scenario_brush = Inr ((fst st)(''r1'' \<mapsto> ''cell''), snd st)"
  by (simp add: prescan_step_def prescan_label_def prescan_textarea_def
      first_label_from_result_value_def py_or_def scenario_env_fields scenario_brush_def)


lemma scenario_polygon_points:
  "polygon_points_percent_to_px (JList [JList [JFloat 10]]) 3 2 = Inl ValueError"
  by (simp add: polygon_points_percent_to_px_def unpack2_def)

lemma scenario_polygon_stages:
  "result_rtype scenario_env scenario_polygon = Inr ''polygonlabels''"
  "result_value scenario_polygon =
     Inr (JDict [(''points'', JList [JList [JFloat 10]]), (''polygonlabels'', JList [JStr ''cell''])])"
  "result_image_url scenario_env scenario_data scenario_polygon = Inr (JStr ''a.png'')"
  "result_size scenario_env scenario_polygon val src = Inr (3, 2)"
  "result_region_id scenario_env i ''polygonlabels'' scenario_polygon = Inr (JStr ''p1'')"
  by (simp_all add: result_rtype_def result_value_def result_image_url_def result_data_key_def
      result_size_def result_region_id_def py_or_def scenario_env_def scenario_polygon_def
      scenario_data_def)

lemma scenario_polygon_result:
  "process_result scenario_env (JStr ''t1'') scenario_data (JStr ''a1'') lbr tbr {} i scenario_polygon
     = Inl ValueError"
  by (simp add: process_result_def scenario_polygon_stages scenario_env_fields
      result_is_mask_def result_is_polygon_def region_shape_def py_or_def scenario_polygon_points)

lemma scenario_prescan_polygon:
  "prescan_step scenario_env st scenario_polygon = Inr ((fst st)(''p1'' \<mapsto> ''cell''), snd st)"
  by (simp add: prescan_step_def prescan_label_def prescan_textarea_def
      first_label_from_result_value_def py_or_def scenario_env_fields scenario_polygon_def)

lemma scenario_task_fields:
  "process_task E rbi (scenario_task results) =
     annotations_loop E (JStr ''t1'') scenario_data
       [JDict [(''id'', JStr ''a1''), (''result'', JList results)]] rbi"
  by (simp add: process_task_def scenario_task_def py_or_def scenario_data_def)

lemma scenario_prescan_textarea:
  "prescan_step scenario_env st scenario_textarea = Inr (fst st, (snd st)(''r1'' \<mapsto> 25 / 2))"
  by (simp add: prescan_step_def prescan_label_def prescan_textarea_def py_or_def
      scenario_env_def scenario_textarea_def)

lemma scenario_prescan_textarea_bad:
  "prescan_step scenario_env st scenario_textarea_bad = Inr st"
  by (simp add: prescan_step_def prescan_label_def prescan_textarea_def py_or_def
      scenario_env_def scenario_textarea_bad_def)

lemma scenario_textarea_not_region:
  "process_result scenario_env (JStr ''t1'') scenario_data (JStr ''a1'') lbr tbr P i scenario_textarea
     = Inr None"
  "process_result scenario_env (JStr ''t1'') scenario_data (JStr ''a1'') lbr tbr P i scenario_textarea_bad
     = Inr None"
  by (simp_all add: process_result_def result_rtype_def result_value_def result_image_url_def
      result_data_key_def result_size_def py_or_def scenario_env_def scenario_data_def
      scenario_textarea_def scenario_textarea_bad_def)

lemma scenario_with_override:
  "export_segmentation_metrics scenario_env [scenario_task [scenario_brush, scenario_textarea]]
     = Inr \<lparr>tables = [(''a.png__task_t1'', [scenario_row (Some (25 / 2))])], readme = False\<rparr>"
  by (simp add: export_segmentation_metrics_def scenario_task_fields process_annotation_def
      py_or_def scenario_prescan_brush scenario_prescan_textarea scenario_brush_emits
      scenario_textarea_not_region)

lemma scenario_with_bad_override:
  "export_segmentation_metrics scenario_env [scenario_task [scenario_brush, scenario_textarea_bad]]
     = export_segmentation_metrics scenario_env [scenario_task [scenario_brush]]"
  by (simp add: export_segmentation_metrics_def scenario_task_fields process_annotation_def
      py_or_def scenario_prescan_brush scenario_prescan_textarea_bad scenario_brush_emits
      scenario_textarea_not_region)

section \<open>Malformed payloads\<close>

text \<open>The mask path catches whatever \<^verbatim>\<open>list(rle)\<close> and the decoder raise: the decoding
  stage of a region never raises, and a run-length list of non-numbers leaves the batch
  without rows and with the note.\<close>

lemma decode_region_catches: "\<exists>m. decode_region (JDict v) w h = Inr m"
  by (simp add: decode_region_def split: sum.splits)

lemma scenario_bad_rle_skipped:
  "export_segmentation_metrics scenario_env
     [scenario_task [JDict [(''id'', JStr ''r1''), (''type'', JStr ''brushlabels''),
                            (''original_width'', JInt 3), (''original_height'', JInt 2),
                            (''value'', JDict [(''rle'', JList [JStr ''x''])])]]]
   = Inr \<lparr>tables = [], readme = True\<rparr>"
  by (simp add: export_segmentation_metrics_def scenario_task_fields process_annotation_def
      py_or_def prescan_step_def prescan_label_def prescan_textarea_def
      process_result_def result_rtype_def result_value_def result_image_url_def
      result_data_key_def result_size_def result_is_mask_def result_is_polygon_def
      result_region_id_def region_shape_def decode_region_def decode_brush_rle_to_mask_def
      scenario_env_def scenario_data_def)

text \<open>
  Claim C4 says that a malformed run-length or polygon payload makes the pipeline skip the
  region and go on, and that no exception escapes the batch.  The polygon path has no
  handler around \<^verbatim>\<open>_polygon_points_percent_to_px\<close>: for a task whose only region is a
  polygon with the vertex \<open>[10.0]\<close> (one coordinate instead of two), unpacking the vertex
  raises \<^verbatim>\<open>ValueError\<close> and the whole export raises it.
\<close>

theorem export_polygon_exception_escapes:
  "export_segmentation_metrics scenario_env [scenario_task [scenario_polygon]] = Inl ValueError"
  by (simp add: export_segmentation_metrics_def scenario_task_fields process_annotation_def
      py_or_def scenario_prescan_polygon scenario_polygon_result)

section \<open>Deduplication of regions\<close>

lemma err_bind_InrE:
  assumes "err_bind m f = Inr y"
  obtains x where "m = Inr x" "f x = Inr y"
  using assms by (cases m) auto

lemma process_result_emit:
  assumes "process_result E tid data aid lbr tbr processed i res = Inr (Some (k, r, s))"
  shows "s = py_str E (region_id r) \<and> s \<notin> processed \<and>
         (\<exists>src msk. (mean_gray r, mean_r r, mean_g r, mean_b r) = region_intensity E tbr src msk s)"
  using assms unfolding process_result_def
  apply (elim err_bind_InrE)
  apply (simp split: if_splits)
  apply (elim err_bind_InrE)
  apply (simp split: if_splits prod.splits)
  apply (elim err_bind_InrE)
  apply (simp split: if_splits)
  apply (elim err_bind_InrE)
  apply (simp split: option.splits prod.splits)
  apply (elim err_bind_InrE)
  apply (simp split: prod.splits)
  apply clarsimp
  apply (rule exI, rule exI, erule sym)
  done

lemma all_rows_append_row: "mset (all_rows (append_row k r rbi)) = mset (all_rows rbi) + {#r#}"
  by (induction rbi) (auto simp: all_rows_def)




section \<open>Duplicates of a region without a run-length list\<close>

lemma scenario_norle_stages:
  "result_rtype scenario_env scenario_brush_norle = Inr ''brushlabels''"
  "result_value scenario_brush_norle = Inr (JDict [(''brushlabels'', JList [JStr ''cell''])])"
  "result_image_url scenario_env scenario_data scenario_brush_norle = Inr (JStr ''a.png'')"
  "result_size scenario_env scenario_brush_norle val src = Inr (3, 2)"
  "result_region_id scenario_env i ''brushlabels'' scenario_brush_norle = Inr (JStr ''r1'')"
  by (simp_all add: result_rtype_def result_value_def result_image_url_def result_data_key_def
      result_size_def result_region_id_def py_or_def scenario_env_def scenario_brush_norle_def
      scenario_data_def)

lemma scenario_norle_dropped:
  "process_result scenario_env (JStr ''t1'') scenario_data (JStr ''a1'') lbr tbr {''r1''} i
     scenario_brush_norle = Inr None"
  by (simp add: process_result_def scenario_norle_stages scenario_env_fields result_is_mask_def
      result_is_polygon_def)

text \<open>
  Claim C9 as stated has no condition on the region id.  A second brush result without a
  run-length list that carries the id of a region already processed in the annotation has a
  resolvable image and size and is skipped all the same: the iteration ends in
  \<^verbatim>\<open>continue\<close> at the test of the processed ids.
\<close>

theorem empty_rle_region_counterexample:
  "result_rtype scenario_env scenario_brush_norle = Inr ''brushlabels'' \<and>
   result_value scenario_brush_norle = Inr (JDict [(''brushlabels'', JList [JStr ''cell''])]) \<and>
   map_of [(''brushlabels'', JList [JStr ''cell''])] ''rle'' = None \<and>
   result_image_url scenario_env scenario_data scenario_brush_norle = Inr (JStr ''a.png'') \<and>
   result_size scenario_env scenario_brush_norle (JDict [(''brushlabels'', JList [JStr ''cell''])])
     (resolve_image_source scenario_env ''a.png'') = Inr (3, 2) \<and>
   process_result scenario_env (JStr ''t1'') scenario_data (JStr ''a1'')
     [''r1'' \<mapsto> ''cell''] Map.empty {''r1''} 1 scenario_brush_norle = Inr None"
  by (intro conjI scenario_norle_stages scenario_norle_dropped) simp

section \<open>Textual overrides\<close>

text \<open>The dictionary of overrides that the pre-scan builds is the one the claims speak of:
  each iteration records what \<open>spec_textarea_override\<close> gives, and the last one wins.\<close>

lemma prescan_label_value_dict:
  assumes "prescan_label E val = Inr lb"
  obtains v where "val = JDict v"
  using assms by (cases val) (simp_all add: prescan_label_def)

lemma prescan_textarea_spec:
  assumes "rid \<noteq> JNone" "map_of d ''id'' = Some rid"
    and "py_or (case map_of d ''value'' of None \<Rightarrow> JNone | Some x \<Rightarrow> x) (JDict []) = JDict v"
    and "prescan_textarea E (JDict d) (JDict v) = Inr tx"
  shows "spec_textarea_override E (JDict d) = map_option (\<lambda>x. (py_str E rid, x)) tx"
proof (cases "map_of d ''type'' = Some (JStr ''textarea'')")
  case False
  then have "tx = None"
    using assms(4) by (auto simp: prescan_textarea_def split: option.splits)
  then show ?thesis using False assms(1,2) by (simp add: spec_textarea_override_def)
next
  case True
  have tx: "tx = (case py_or (case map_of v ''text'' of None \<Rightarrow> JNone | Some x \<Rightarrow> x) (JList []) of
                    JList (t0 # ts) \<Rightarrow> py_float E (py_strip E (py_str E t0)) | _ \<Rightarrow> None)"
    using assms(4) True by (simp add: prescan_textarea_def split: json.splits list.splits)
  show ?thesis
  proof (cases "map_of d ''value''")
    case None
    then have "v = []" using assms(3) by (simp add: py_or_def)
    then show ?thesis using None True assms(1,2) tx
      by (simp add: spec_textarea_override_def py_or_def)
  next
    case (Some v0)
    show ?thesis
    proof (cases "py_truthy v0")
      case Tr: True
      then have "v0 = JDict v" using assms(3) Some by (simp add: py_or_def)
      then show ?thesis using Some True assms(1,2) tx
        by (auto simp: spec_textarea_override_def py_or_def split: option.splits json.splits list.splits)
    next
      case Fa: False
      then have v: "v = []" using assms(3) Some by (simp add: py_or_def)
      have "spec_textarea_override E (JDict d) = None"
        using Some True assms(1,2) Fa
        by (cases v0) (auto simp: spec_textarea_override_def split: option.splits json.splits list.splits)
      then show ?thesis using tx v by (simp add: py_or_def)
    qed
  qed
qed

lemma prescan_step_override:
  assumes "prescan_step E st res = Inr st'"
  shows "snd st' = (case spec_textarea_override E res of
                      None \<Rightarrow> snd st | Some sx \<Rightarrow> (snd st)(fst sx \<mapsto> snd sx))"
proof -
  obtain d where d: "res = JDict d"
    using assms by (cases res) (simp_all add: prescan_step_def)
  define v0 where "v0 = (case map_of d ''value'' of None \<Rightarrow> JNone | Some x \<Rightarrow> x)"
  define rid where "rid = (case map_of d ''id'' of None \<Rightarrow> JNone | Some x \<Rightarrow> x)"
  show ?thesis
  proof (cases "rid = JNone")
    case True
    then have "st' = st" using assms by (simp add: prescan_step_def d rid_def)
    moreover have "spec_textarea_override E res = None"
      using True by (auto simp: spec_textarea_override_def d rid_def split: option.splits)
    ultimately show ?thesis by simp
  next
    case False
    then have idm: "map_of d ''id'' = Some rid" by (auto simp: rid_def split: option.splits)
    obtain lb tx where lb: "prescan_label E (py_or v0 (JDict [])) = Inr lb"
      and tx: "prescan_textarea E res (py_or v0 (JDict [])) = Inr tx"
      and t: "snd st' = (case tx of None \<Rightarrow> snd st | Some x \<Rightarrow> (snd st)(py_str E rid \<mapsto> x))"
      using assms False unfolding prescan_step_def d rid_def v0_def
      by (auto simp: err_bind_def split: sum.splits)
    obtain v where v: "py_or v0 (JDict []) = JDict v"
      using prescan_label_value_dict [OF lb] by blast
    have "spec_textarea_override E (JDict d) = map_option (\<lambda>x. (py_str E rid, x)) tx"
      using prescan_textarea_spec [OF False idm] v tx by (simp add: v0_def d)
    then show ?thesis using t by (cases tx) (simp_all add: d)
  qed
qed

lemma prescan_overrides:
  assumes "prescan E results (lbr0, tbr0) = Inr (lbr, tbr)"
  shows "tbr s = (case spec_override_of E results s of None \<Rightarrow> tbr0 s | Some x \<Rightarrow> Some x)"
  using assms
proof (induction results arbitrary: lbr0 tbr0)
  case Nil
  then show ?case by simp
next
  case (Cons res rest)
  then obtain lbr1 tbr1 where st: "prescan_step E (lbr0, tbr0) res = Inr (lbr1, tbr1)"
    and rest: "prescan E rest (lbr1, tbr1) = Inr (lbr, tbr)"
    by (auto split: sum.splits)
  have t1: "tbr1 = (case spec_textarea_override E res of None \<Rightarrow> tbr0 | Some sx \<Rightarrow> tbr0(fst sx \<mapsto> snd sx))"
    using prescan_step_override [OF st] by (simp cong: option.case_cong)
  have "tbr s = (case spec_override_of E rest s of None \<Rightarrow> tbr1 s | Some x \<Rightarrow> Some x)"
    by (rule Cons.IH [OF rest])
  then show ?case using t1 by (auto split: option.splits)
qed

lemma prescan_overrides_empty:
  assumes "prescan E results (Map.empty, Map.empty) = Inr (lbr, tbr)"
  shows "tbr = spec_override_of E results"
proof
  fix s show "tbr s = spec_override_of E results s"
    using prescan_overrides [OF assms, of s] by (simp split: option.splits)
qed


lemma results_loop_rows_emitted:
  assumes "results_loop E tid data aid lbr tbr i results (P, rbi) = Inr (P', rbi')"
  shows "\<exists>new. mset (all_rows rbi') = mset (all_rows rbi) + mset new \<and>
               (\<forall>r \<in> set new. \<exists>k s P0 j res. res \<in> set results \<and>
                   process_result E tid data aid lbr tbr P0 j res = Inr (Some (k, r, s)))"
  using assms
proof (induction results arbitrary: i P rbi)
  case Nil
  then show ?case by (intro exI [of _ "[]"]) simp
next
  case (Cons res rest)
  show ?case
  proof (cases "process_result E tid data aid lbr tbr P i res")
    case (Inl e)
    then show ?thesis using Cons.prems by simp
  next
    case (Inr out)
    show ?thesis
    proof (cases out)
      case None
      then have "results_loop E tid data aid lbr tbr (Suc i) rest (P, rbi) = Inr (P', rbi')"
        using Cons.prems Inr by simp
      from Cons.IH [OF this] obtain new where new:
        "mset (all_rows rbi') = mset (all_rows rbi) + mset new"
        "\<forall>x \<in> set new. \<exists>k s P0 j res. res \<in> set rest \<and>
             process_result E tid data aid lbr tbr P0 j res = Inr (Some (k, x, s))"
        by blast
      have "\<forall>x \<in> set new. \<exists>k s P0 j res'. res' \<in> set (res # rest) \<and>
             process_result E tid data aid lbr tbr P0 j res' = Inr (Some (k, x, s))"
      proof
        fix x assume "x \<in> set new"
        then obtain k' s' P0 j res' where "res' \<in> set rest"
          "process_result E tid data aid lbr tbr P0 j res' = Inr (Some (k', x, s'))"
          using new(2) by blast
        then show "\<exists>k s P0 j res'. res' \<in> set (res # rest) \<and>
             process_result E tid data aid lbr tbr P0 j res' = Inr (Some (k, x, s))"
          by (intro exI [of _ k'] exI [of _ s'] exI [of _ P0] exI [of _ j] exI [of _ res']) simp
      qed
      then show ?thesis using new(1) by (intro exI [of _ new]) simp
    next
      case (Some t)
      obtain k r s where t: "t = (k, r, s)" by (cases t) auto
      have emit: "process_result E tid data aid lbr tbr P i res = Inr (Some (k, r, s))"
        using Inr Some t by simp
      have "results_loop E tid data aid lbr tbr (Suc i) rest (insert s P, append_row k r rbi) = Inr (P', rbi')"
        using Cons.prems emit by simp
      from Cons.IH [OF this] obtain new where new:
        "mset (all_rows rbi') = mset (all_rows (append_row k r rbi)) + mset new"
        "\<forall>x \<in> set new. \<exists>k s P0 j res. res \<in> set rest \<and>
             process_result E tid data aid lbr tbr P0 j res = Inr (Some (k, x, s))"
        by blast
      have "mset (all_rows rbi') = mset (all_rows rbi) + mset (r # new)"
        using new(1) by (simp add: all_rows_append_row)
      moreover have "\<forall>x \<in> set (r # new). \<exists>k s P0 j res'. res' \<in> set (res # rest) \<and>
             process_result E tid data aid lbr tbr P0 j res' = Inr (Some (k, x, s))"
      proof
        fix x assume "x \<in> set (r # new)"
        then consider "x = r" | "x \<in> set new" by auto
        then show "\<exists>k s P0 j res'. res' \<in> set (res # rest) \<and>
             process_result E tid data aid lbr tbr P0 j res' = Inr (Some (k, x, s))"
        proof cases
          case 1
          then show ?thesis using emit by (intro exI [of _ k] exI [of _ s] exI [of _ P] exI [of _ i] exI [of _ res]) simp
        next
          case 2
          then obtain k' s' P0 j res' where "res' \<in> set rest"
            "process_result E tid data aid lbr tbr P0 j res' = Inr (Some (k', x, s'))"
            using new(2) by blast
          then show ?thesis by (intro exI [of _ k'] exI [of _ s'] exI [of _ P0] exI [of _ j] exI [of _ res']) simp
        qed
      qed
      ultimately show ?thesis by (intro exI [of _ "r # new"]) simp
    qed
  qed
qed

lemma process_annotation_run:
  assumes "dict_get ann ''result'' = Inr rj" and "py_iter (py_or rj (JList [])) = Inr results"
    and "process_annotation E tid data rbi ann = Inr rbi'"
  obtains aid lbr tbr P' where
    "prescan E results (Map.empty, Map.empty) = Inr (lbr, tbr)"
    "results_loop E tid data aid lbr tbr 0 results ({}, rbi) = Inr (P', rbi')"
proof -
  from assms(3) obtain aid maps st where
    "prescan E results (Map.empty, Map.empty) = Inr maps"
    "results_loop E tid data aid (fst maps) (snd maps) 0 results ({}, rbi) = Inr st"
    "snd st = rbi'"
    unfolding process_annotation_def using assms(1,2)
    by (elim err_bind_InrE) auto
  then have "prescan E results (Map.empty, Map.empty) = Inr (fst maps, snd maps)"
    "results_loop E tid data aid (fst maps) (snd maps) 0 results ({}, rbi) = Inr (fst st, rbi')"
    by (simp_all add: prod_eq_iff)
  then show ?thesis by (rule that)
qed

text \<open>The scenario with an image that opens: the pixels of \<^verbatim>\<open>r1\<close> give the gray mean
  30.\<close>

lemma scenario_open_fields:
  "py_str scenario_env_open (JStr x) = x"
  "src_filename (resolve_image_source scenario_env_open u) = u"
  "open_image scenario_env_open src = Some scenario_image"
  by (simp_all add: scenario_env_open_def scenario_env_def)

lemma scenario_open_stages:
  "result_rtype scenario_env_open scenario_brush = Inr ''brushlabels''"
  "result_image_url scenario_env_open scenario_data scenario_brush = Inr (JStr ''a.png'')"
  "result_size scenario_env_open scenario_brush val src = Inr (3, 2)"
  "result_region_id scenario_env_open i ''brushlabels'' scenario_brush = Inr (JStr ''r1'')"
  by (simp_all add: result_rtype_def result_image_url_def result_data_key_def
      result_size_def result_region_id_def py_or_def scenario_env_open_def scenario_env_def
      scenario_brush_def scenario_data_def)

lemma scenario_open_shape:
  "region_shape scenario_env_open lbr
     (JDict [(''format'', JStr ''rle''), (''rle'', JList [JInt 1, JInt 2]),
             (''brushlabels'', JList [JStr ''cell''])]) 3 2 ''r1'' True b
   = Inr (Some ([[False, True, True], [False, False, False]], ''mask'', ''cell'', []))"
  by (simp add: region_shape_def decode_region_def region_label_def
      first_label_from_result_value_def py_or_def scenario_mask scenario_open_fields)

lemma scenario_open_prescan:
  "prescan_step scenario_env_open st scenario_brush = Inr ((fst st)(''r1'' \<mapsto> ''cell''), snd st)"
  "prescan_step scenario_env_open st scenario_textarea = Inr (fst st, (snd st)(''r1'' \<mapsto> 25 / 2))"
  "prescan_step scenario_env_open st scenario_textarea_bad = Inr st"
  by (simp_all add: prescan_step_def prescan_label_def prescan_textarea_def
      first_label_from_result_value_def py_or_def scenario_env_open_def scenario_env_def
      scenario_brush_def scenario_textarea_def scenario_textarea_bad_def)

lemma scenario_pixels:
  "compute_intensities scenario_image [[False, True, True], [False, False, False]]
     = Inr (Some 30, None, None, None)"
  by (simp add: compute_intensities_def scenario_image_def mask_sum_def masked_mean_def
      mask_any_def np_masked_def np_mean_def)

lemma scenario_open_emits:
  "process_result scenario_env_open (JStr ''t1'') scenario_data (JStr ''a1'') lbr tbr {} i scenario_brush
     = Inr (Some (''a.png__task_t1'',
                  scenario_row (case tbr ''r1'' of None \<Rightarrow> Some 30 | Some x \<Rightarrow> Some x), ''r1''))"
  by (simp add: process_result_def scenario_open_stages scenario_open_fields
      scenario_brush_stages(2) result_is_mask_def
      scenario_brush_polygon_flag scenario_open_shape scenario_bbox scenario_pixels
      region_intensity_def intensity_from_pixels_def scenario_row_def split: option.splits)

lemma scenario_open_textarea_not_region:
  "process_result scenario_env_open (JStr ''t1'') scenario_data (JStr ''a1'') lbr tbr P i scenario_textarea
     = Inr None"
  "process_result scenario_env_open (JStr ''t1'') scenario_data (JStr ''a1'') lbr tbr P i scenario_textarea_bad
     = Inr None"
  by (simp_all add: process_result_def result_rtype_def result_value_def result_image_url_def
      result_data_key_def result_size_def py_or_def scenario_env_open_def scenario_env_def
      scenario_data_def scenario_textarea_def scenario_textarea_bad_def)

lemma scenario_open_pixels_of_region:
  "intensity_from_pixels scenario_env_open src [[False, True, True], [False, False, False]]
     = (Some 30, None, None, None)"
  by (simp add: intensity_from_pixels_def scenario_open_fields scenario_pixels)



lemma scenario_spec_overrides:
  "spec_textarea_override scenario_env_open scenario_brush = None"
  "spec_textarea_override scenario_env_open scenario_textarea = Some (''r1'', 25 / 2)"
  "spec_textarea_override scenario_env_open scenario_textarea_bad = None"
  by (simp_all add: spec_textarea_override_def scenario_brush_def scenario_textarea_def
      scenario_textarea_bad_def scenario_env_open_def scenario_env_def)

lemma scenario_open_with_override:
  "process_annotation scenario_env_open (JStr ''t1'') scenario_data []
     (JDict [(''id'', JStr ''a1''), (''result'', JList [scenario_brush, scenario_textarea])])
   = Inr [(''a.png__task_t1'', [scenario_row (Some (25 / 2))])]"
  by (simp add: process_annotation_def py_or_def scenario_open_prescan scenario_open_emits
      scenario_open_textarea_not_region)

text \<open>
  Claim C6.  Take the results of an annotation and the rows that processing it adds to the
  tables.  The dictionary of overrides that the pre-scan builds from the results holds, for
  a region id, the number of the last textarea result that supplies one for it; and every
  added row whose region id has such an override \<open>v\<close> has the gray mean \<open>v\<close> and
  absent red, green and blue means, the intensity stage giving this for every set of
  collaborators, image source and mask, so that no pixel is looked at.
\<close>

theorem override_gives_gray:
  assumes "dict_get ann ''result'' = Inr rj" and "py_iter (py_or rj (JList [])) = Inr results"
    and "process_annotation E tid data rbi ann = Inr rbi'"
  shows "\<exists>new lbr tbr.
           prescan E results (Map.empty, Map.empty) = Inr (lbr, tbr) \<and>
           tbr = spec_override_of E results \<and>
           mset (all_rows rbi') = mset (all_rows rbi) + mset new \<and>
           (\<forall>r \<in> set new. \<forall>v. spec_override_of E results (py_str E (region_id r)) = Some v \<longrightarrow>
              mean_gray r = Some v \<and> mean_r r = None \<and> mean_g r = None \<and> mean_b r = None \<and>
              (\<forall>E' src msk. region_intensity E' tbr src msk (py_str E (region_id r))
                             = (Some v, None, None, None)))"
proof -
  obtain aid lbr tbr P' where
    pre: "prescan E results (Map.empty, Map.empty) = Inr (lbr, tbr)"
    and loop: "results_loop E tid data aid lbr tbr 0 results ({}, rbi) = Inr (P', rbi')"
    by (rule process_annotation_run [OF assms])
  have tbr: "tbr = spec_override_of E results"
    by (rule prescan_overrides_empty [OF pre])
  from results_loop_rows_emitted [OF loop] obtain new where
    new: "mset (all_rows rbi') = mset (all_rows rbi) + mset new"
    and em: "\<forall>r \<in> set new. \<exists>k s P0 j res. res \<in> set results \<and>
               process_result E tid data aid lbr tbr P0 j res = Inr (Some (k, r, s))"
    by (elim exE conjE)
  have rows: "mean_gray r = Some v \<and> mean_r r = None \<and> mean_g r = None \<and> mean_b r = None \<and>
              (\<forall>E' src msk. region_intensity E' tbr src msk (py_str E (region_id r))
                             = (Some v, None, None, None))"
    if r: "r \<in> set new" and v: "spec_override_of E results (py_str E (region_id r)) = Some v" for r v
  proof -
    from em r obtain k s P0 j res where
      e: "process_result E tid data aid lbr tbr P0 j res = Inr (Some (k, r, s))" by blast
    from process_result_emit [OF e] obtain src msk where
      s: "s = py_str E (region_id r)"
      and m: "(mean_gray r, mean_r r, mean_g r, mean_b r) = region_intensity E tbr src msk s"
      by blast
    have ov: "tbr (py_str E (region_id r)) = Some v" using v tbr by simp
    have all: "region_intensity E' tbr src' msk' (py_str E (region_id r)) = (Some v, None, None, None)"
      for E' src' msk'
      using ov by (simp add: region_intensity_def)
    have "(mean_gray r, mean_r r, mean_g r, mean_b r) = (Some v, None, None, None)"
      using m s all by simp
    then show ?thesis using all by simp
  qed
  show ?thesis
    apply (rule exI [of _ new], rule exI [of _ lbr], rule exI [of _ tbr])
    apply (intro conjI)
       apply (rule pre)
      apply (rule tbr)
     apply (rule new)
    apply (intro ballI allI impI)
    apply (rule rows; assumption)
    done
qed

theorem override_gives_gray_witness:
  "dict_get (JDict [(''id'', JStr ''a1''), (''result'', JList [scenario_brush, scenario_textarea])])
     ''result'' = Inr (JList [scenario_brush, scenario_textarea]) \<and>
   py_iter (py_or (JList [scenario_brush, scenario_textarea]) (JList []))
     = Inr [scenario_brush, scenario_textarea] \<and>
   process_annotation scenario_env_open (JStr ''t1'') scenario_data []
     (JDict [(''id'', JStr ''a1''), (''result'', JList [scenario_brush, scenario_textarea])])
     = Inr [(''a.png__task_t1'', [scenario_row (Some (25 / 2))])] \<and>
   spec_override_of scenario_env_open [scenario_brush, scenario_textarea] ''r1'' = Some (25 / 2) \<and>
   intensity_from_pixels scenario_env_open (resolve_image_source scenario_env_open ''a.png'')
     [[False, True, True], [False, False, False]] = (Some 30, None, None, None) \<and>
   (\<exists>new lbr tbr.
      prescan scenario_env_open [scenario_brush, scenario_textarea] (Map.empty, Map.empty)
        = Inr (lbr, tbr) \<and>
      tbr = spec_override_of scenario_env_open [scenario_brush, scenario_textarea] \<and>
      mset (all_rows [(''a.png__task_t1'', [scenario_row (Some (25 / 2))])])
        = mset (all_rows []) + mset new \<and>
      (\<forall>r \<in> set new. \<forall>v.
         spec_override_of scenario_env_open [scenario_brush, scenario_textarea]
           (py_str scenario_env_open (region_id r)) = Some v \<longrightarrow>
         mean_gray r = Some v \<and> mean_r r = None \<and> mean_g r = None \<and> mean_b r = None \<and>
         (\<forall>E' src msk. region_intensity E' tbr src msk (py_str scenario_env_open (region_id r))
                        = (Some v, None, None, None))))"
proof -
  have h1: "dict_get (JDict [(''id'', JStr ''a1''), (''result'', JList [scenario_brush, scenario_textarea])])
     ''result'' = Inr (JList [scenario_brush, scenario_textarea])"
    by simp
  have h2: "py_iter (py_or (JList [scenario_brush, scenario_textarea]) (JList []))
     = Inr [scenario_brush, scenario_textarea]"
    by (simp add: py_or_def)
  note h3 = scenario_open_with_override
  have s: "spec_override_of scenario_env_open [scenario_brush, scenario_textarea] ''r1'' = Some (25 / 2)"
    by (simp add: scenario_spec_overrides)
  show ?thesis
    by (intro conjI h1 h2 h3 s scenario_open_pixels_of_region override_gives_gray [OF h1 h2 h3])
qed








end
